theory Spec2Isabelle
  imports Main "HOL-Library.Sublist" "HOL-Library.AList"
begin

section \<open>Values handled by the connector\<close>

text \<open>
  The access description, the internal description and the bodies returned by the XNAT
  server are JSON documents decoded into Python values. A Python \<open>dict\<close> is an
  association list read with \<open>map_of\<close>; Python's \<open>None\<close> is \<open>JNull\<close>.
  Fractional numbers are not represented.
\<close>

datatype json =
    JNull
  | JBool bool
  | JNum int
  | JStr string
  | JArr "json list"
  | JObj "(string \<times> json) list"

type_synonym dict = "(string \<times> json) list"

text \<open>
  Every exception the connector can raise is a value. \<open>PyException\<close> is the plain
  \<open>Exception(message)\<close> of \<open>Http.send\<close>, \<open>HTTPError\<close> is what
  \<open>raise_for_status\<close> raises (with the status code of the response) and
  \<open>ValidationError\<close> is what \<open>jsonschema.validate\<close> raises. \<open>Unmodelled\<close>
  marks an input outside this model: a path component of the access description that is
  present but not a string (its Python rendering and comparison are not modelled).
\<close>

datatype error =
    KeyError string
  | TypeError
  | AttributeError
  | ValueError
  | HTTPError nat
  | ConnectionError
  | OSError
  | PyException string
  | ValidationError
  | Unmodelled

section \<open>The JSON schemas and their validation\<close>

text \<open>
  The two schemas of the source use the keywords \<open>type\<close> (\<open>object\<close>, \<open>string\<close>,
  \<open>boolean\<close>), \<open>properties\<close>, \<open>additionalProperties\<close>, \<open>required\<close>, \<open>enum\<close>
  (of strings) and \<open>oneOf\<close>. Every schema with \<open>'type': 'object'\<close> carries
  \<open>properties\<close>, \<open>additionalProperties\<close> and \<open>required\<close>, so these four keywords
  form one constructor: \<open>TObject properties additionalProperties required\<close>.
\<close>

datatype schema =
    TString
  | TBoolean
  | TEnum "string list"
  | TObject "(string \<times> schema) list" bool "string list"
  | OneOf "schema list"

text \<open>
  The meaning of the keywords, as the \<open>jsonschema\<close> library (an external dependency of
  the connector) implements them: \<open>properties\<close> checks the value of every listed key
  that is present, \<open>additionalProperties: False\<close> rejects a key that is not listed,
  \<open>required\<close> rejects a missing key, \<open>enum\<close> accepts a value equal to one of the
  listed ones and \<open>oneOf\<close> accepts when exactly one subschema does.
\<close>

function validates :: "schema \<Rightarrow> json \<Rightarrow> bool" where
  "validates TString j = (case j of JStr _ \<Rightarrow> True | _ \<Rightarrow> False)"
| "validates TBoolean j = (case j of JBool _ \<Rightarrow> True | _ \<Rightarrow> False)"
| "validates (TEnum vs) j = (j \<in> set (map JStr vs))"
| "validates (TObject props addl req) j =
     (case j of
        JObj kvs \<Rightarrow>
          list_all (\<lambda>p. case map_of kvs (fst p) of
                           None \<Rightarrow> True
                         | Some v \<Rightarrow> validates (snd p) v) props
          \<and> (addl \<or> list_all (\<lambda>k. k \<in> set (map fst props)) (map fst kvs))
          \<and> list_all (\<lambda>k. k \<in> set (map fst kvs)) req
      | _ \<Rightarrow> False)"
| "validates (OneOf ss) j = (length (filter (\<lambda>s. validates s j) ss) = 1)"
  by pat_completeness auto

lemma size_snd_props:
  "p \<in> set props \<Longrightarrow> size (snd p) < Suc (size_list (size_prod (\<lambda>_. 0) size) props)"
  by (induction props) (auto simp: less_Suc_eq_le)

lemma size_oneof:
  "s \<in> set ss \<Longrightarrow> size s < Suc (size_list size ss)"
  by (induction ss) auto

termination validates
  by (relation "measure (\<lambda>(s, j). size s)") (auto simp: size_snd_props size_oneof)

definition auth_schema :: schema where
  "auth_schema =
     TObject [(''username'', TString), (''password'', TString)] False
             [''username'', ''password'']"

definition http_send_schema :: schema where
  "http_send_schema =
     TObject
       [(''baseUrl'', TString),
        (''project'', TString),
        (''subject'', TString),
        (''session'', TString),
        (''containerType'', TEnum [''scans'', ''reconstructions'', ''assessors'']),
        (''container'', TString),
        (''resource'', TString),
        (''xsiType'', TString),
        (''file'', TString),
        (''upsert'', TBoolean),
        (''auth'', auth_schema),
        (''disableSSLVerification'', TBoolean)]
       False
       [''baseUrl'', ''project'', ''subject'', ''session'', ''containerType'', ''container'',
        ''xsiType'', ''file'', ''auth'']"

definition http_receive_schema :: schema where
  "http_receive_schema =
     OneOf
       [TObject
          [(''baseUrl'', TString),
           (''project'', TString),
           (''subject'', TString),
           (''session'', TString),
           (''containerType'', TEnum [''scans'', ''reconstructions'', ''assessors'']),
           (''container'', TString),
           (''resource'', TString),
           (''file'', TString),
           (''auth'', auth_schema),
           (''disableSSLVerification'', TBoolean)]
          False
          [''baseUrl'', ''project'', ''subject'', ''session'', ''containerType'',
           ''container'', ''resource'', ''file'', ''auth''],
        TObject
          [(''baseUrl'', TString),
           (''project'', TString),
           (''subject'', TString),
           (''session'', TString),
           (''resource'', TString),
           (''file'', TString),
           (''auth'', auth_schema),
           (''disableSSLVerification'', TBoolean)]
          False
          [''baseUrl'', ''project'', ''subject'', ''session'', ''resource'', ''file'',
           ''auth'']]"

definition jsonschema_validate :: "json \<Rightarrow> schema \<Rightarrow> error + unit" where
  "jsonschema_validate instance s = (if validates s instance then Inr () else Inl ValidationError)"

definition receive_validate :: "json \<Rightarrow> error + unit" where
  "receive_validate access = jsonschema_validate access http_receive_schema"

definition send_validate :: "json \<Rightarrow> error + unit" where
  "send_validate access = jsonschema_validate access http_send_schema"

section \<open>Python's dictionary and string operations\<close>

definition ebind :: "error + 'a \<Rightarrow> ('a \<Rightarrow> error + 'b) \<Rightarrow> error + 'b" where
  "ebind m f = (case m of Inl e \<Rightarrow> Inl e | Inr x \<Rightarrow> f x)"

text \<open>\<open>d.get(k)\<close>: the value, or \<open>None\<close> when the key is missing.\<close>

definition dict_get :: "dict \<Rightarrow> string \<Rightarrow> json" where
  "dict_get d k = (case map_of d k of None \<Rightarrow> JNull | Some v \<Rightarrow> v)"

text \<open>\<open>d[k]\<close> on a dictionary: \<open>KeyError\<close> when the key is missing.\<close>

definition getitem :: "dict \<Rightarrow> string \<Rightarrow> error + json" where
  "getitem d k = (case map_of d k of None \<Rightarrow> Inl (KeyError k) | Some v \<Rightarrow> Inr v)"

text \<open>
  \<open>v[k]\<close> with a string key on any decoded JSON value: only a dictionary can be
  subscripted by a string, every other value raises \<open>TypeError\<close>.
\<close>

definition subscript :: "json \<Rightarrow> string \<Rightarrow> error + json" where
  "subscript v k = (case v of JObj d \<Rightarrow> getitem d k | _ \<Rightarrow> Inl TypeError)"

text \<open>The truth value Python gives a value in \<open>if v\<close> and \<open>not v\<close>.\<close>

fun truthy :: "json \<Rightarrow> bool" where
  "truthy JNull = False"
| "truthy (JBool b) = b"
| "truthy (JNum n) = (n \<noteq> 0)"
| "truthy (JStr s) = (s \<noteq> [])"
| "truthy (JArr xs) = (xs \<noteq> [])"
| "truthy (JObj d) = (d \<noteq> [])"

text \<open>\<open>for x in v\<close>: the elements of a list, the keys of a dictionary, the characters
  of a string; any other value is not iterable.\<close>

definition py_iter :: "json \<Rightarrow> error + json list" where
  "py_iter v =
     (case v of
        JArr xs \<Rightarrow> Inr xs
      | JObj d \<Rightarrow> Inr (map (\<lambda>p. JStr (fst p)) d)
      | JStr s \<Rightarrow> Inr (map (\<lambda>c. JStr [c]) s)
      | _ \<Rightarrow> Inl TypeError)"

text \<open>\<open>s.rstrip(chars)\<close>: drop every trailing character that is in \<open>chars\<close>.\<close>

definition rstrip :: "string \<Rightarrow> string \<Rightarrow> string" where
  "rstrip chars s = rev (dropWhile (\<lambda>c. c \<in> set chars) (rev s))"

text \<open>\<open>access['baseUrl'].rstrip('/')\<close>: only a string has the method.\<close>

definition rstrip_slash :: "json \<Rightarrow> error + string" where
  "rstrip_slash v = (case v of JStr s \<Rightarrow> Inr (rstrip ''/'' s) | _ \<Rightarrow> Inl AttributeError)"

text \<open>
  A component of the REST path. The connector formats it into URLs and compares it with
  the identifiers the server lists; the model covers the components that are strings
  (every component of a description the schema accepts is one).
\<close>

definition as_str :: "json \<Rightarrow> error + string" where
  "as_str v = (case v of JStr s \<Rightarrow> Inr s | _ \<Rightarrow> Inl Unmodelled)"

text \<open>The same for \<open>access.get(k)\<close>, where a missing key gives \<open>None\<close>.\<close>

definition as_opt_str :: "json \<Rightarrow> error + string option" where
  "as_opt_str v = (case v of JNull \<Rightarrow> Inr None | JStr s \<Rightarrow> Inr (Some s) | _ \<Rightarrow> Inl Unmodelled)"

text \<open>What \<open>'{}'.format(v)\<close> writes for a string or \<open>None\<close>.\<close>

definition py_str :: "string option \<Rightarrow> string" where
  "py_str v = (case v of None \<Rightarrow> ''None'' | Some s \<Rightarrow> s)"

section \<open>The HTTP transport and the local file system\<close>

datatype http_method = GET | PUT | DELETE

datatype credentials = HTTPBasicAuth json json

type_synonym cookiejar = "(string \<times> string) list"

type_synonym bytes = string

text \<open>
  A call of \<open>requests.get\<close>, \<open>requests.put\<close> or \<open>requests.delete\<close> with its keyword
  arguments; an argument the call does not give has the default of the library
  (\<open>auth=None\<close>, \<open>cookies=None\<close>, \<open>stream=False\<close>, \<open>data=None\<close>).
\<close>

record request =
  rq_method :: http_method
  rq_url :: string
  rq_auth :: "credentials option"
  rq_cookies :: "cookiejar option"
  rq_verify :: bool
  rq_stream :: bool
  rq_data :: "bytes option"

text \<open>
  A response: its status, the value \<open>r.json()\<close> decodes (\<open>None\<close> when the body is
  not JSON), the chunks \<open>r.iter_content\<close> yields, whether the connection breaks after
  the last of them, and the cookies the server set.
\<close>

record response =
  status_code :: nat
  json_body :: "json option"
  chunks :: "bytes list"
  broken :: bool
  resp_cookies :: cookiejar

datatype reply = Response response | NoResponse

text \<open>
  What an operation does to the outside world, in order: an HTTP call with the reply it
  got, an \<open>open(path, mode)\<close>, a \<open>f.write(chunk)\<close>.
\<close>

datatype event =
    Http request reply
  | Open string string
  | Write string bytes

record world =
  trace :: "event list"
  files :: "string \<rightharpoonup> bytes"

text \<open>
  The environment: the server answers a request knowing everything that happened
  before, and a path can or cannot be opened for writing.
\<close>

record env =
  server :: "event list \<Rightarrow> request \<Rightarrow> reply"
  writable :: "string \<Rightarrow> bool"

type_synonym 'a io = "world \<Rightarrow> (error + 'a) \<times> world"

definition io_return :: "'a \<Rightarrow> 'a io" where
  "io_return x w = (Inr x, w)"

definition io_raise :: "error \<Rightarrow> 'a io" where
  "io_raise e w = (Inl e, w)"

definition lift :: "error + 'a \<Rightarrow> 'a io" where
  "lift m w = (m, w)"

definition io_bind :: "'a io \<Rightarrow> ('a \<Rightarrow> 'b io) \<Rightarrow> 'b io" where
  "io_bind m f w = (case m w of (Inl e, w') \<Rightarrow> (Inl e, w') | (Inr x, w') \<Rightarrow> f x w')"

text \<open>One call of the \<open>requests\<close> library: the call and its reply are recorded.\<close>

definition requests :: "env \<Rightarrow> request \<Rightarrow> response io" where
  "requests e q w =
     (let rep = server e (trace w) q;
          w' = w\<lparr>trace := trace w @ [Http q rep]\<rparr>
      in case rep of
           NoResponse \<Rightarrow> (Inl ConnectionError, w')
         | Response r \<Rightarrow> (Inr r, w'))"

text \<open>\<open>Response.ok\<close> and \<open>Response.raise_for_status\<close> of the \<open>requests\<close> library:
  an error is a status from 400 to 599.\<close>

definition ok :: "response \<Rightarrow> bool" where
  "ok r = (\<not> (400 \<le> status_code r \<and> status_code r < 600))"

definition raise_for_status :: "response \<Rightarrow> error + unit" where
  "raise_for_status r = (if ok r then Inr () else Inl (HTTPError (status_code r)))"

text \<open>\<open>open(path, 'wb')\<close> creates or truncates the file.\<close>

definition open_wb :: "env \<Rightarrow> string \<Rightarrow> unit io" where
  "open_wb e path w =
     (let w' = w\<lparr>trace := trace w @ [Open path ''wb'']\<rparr>
      in if writable e path then (Inr (), w'\<lparr>files := (files w')(path \<mapsto> [])\<rparr>)
         else (Inl OSError, w'))"

text \<open>\<open>open(path, 'rb')\<close>; the handle is read by the request that gets it as body.\<close>

definition open_rb :: "string \<Rightarrow> bytes io" where
  "open_rb path w =
     (let w' = w\<lparr>trace := trace w @ [Open path ''rb'']\<rparr>
      in case files w path of None \<Rightarrow> (Inl OSError, w') | Some content \<Rightarrow> (Inr content, w'))"

definition f_write :: "string \<Rightarrow> bytes \<Rightarrow> world \<Rightarrow> world" where
  "f_write path chunk w =
     w\<lparr>trace := trace w @ [Write path chunk],
       files := (files w)(path \<mapsto> (case files w path of None \<Rightarrow> chunk | Some old \<Rightarrow> old @ chunk))\<rparr>"

text \<open>
  \<^verbatim>\<open>for chunk in r.iter_content(chunk_size=4096): if chunk: f.write(chunk)\<close>
\<close>

fun write_chunks :: "string \<Rightarrow> bytes list \<Rightarrow> world \<Rightarrow> world" where
  "write_chunks path [] w = w"
| "write_chunks path (chunk # cs) w =
     write_chunks path cs (if chunk \<noteq> [] then f_write path chunk w else w)"

definition iter_content_to :: "string \<Rightarrow> response \<Rightarrow> unit io" where
  "iter_content_to path r w =
     (let w' = write_chunks path (chunks r) w
      in if broken r then (Inl ConnectionError, w') else (Inr (), w'))"

section \<open>The connector\<close>

text \<open>\<open>_auth_method_obj(access)\<close>\<close>

definition auth_method_obj_of :: "dict \<Rightarrow> error + credentials option" where
  "auth_method_obj_of access =
     (if \<not> truthy (dict_get access ''auth'') then Inr None
      else ebind (getitem access ''auth'') (\<lambda>auth.
           ebind (subscript auth ''username'') (\<lambda>username.
           ebind (subscript auth ''password'') (\<lambda>password.
           Inr (Some (HTTPBasicAuth username password))))))"

text \<open>
  \<^verbatim>\<open>for e in existing: if e[key] == value: exists = True; break\<close>
  The three loops of \<open>Http.send\<close> (over containers by \<open>ID\<close>, resources by \<open>label\<close>,
  files by \<open>Name\<close>) have this shape; \<open>value\<close> is a string.
\<close>

fun exists_with :: "string \<Rightarrow> string \<Rightarrow> json list \<Rightarrow> error + bool" where
  "exists_with key v [] = Inr False"
| "exists_with key v (e # es) =
     (case subscript e key of
        Inl err \<Rightarrow> Inl err
      | Inr x \<Rightarrow> if x = JStr v then Inr True else exists_with key v es)"

text \<open>\<open>r.json()['ResultSet']['Result']\<close>\<close>

definition result_of :: "response \<Rightarrow> error + json" where
  "result_of r =
     (case json_body r of
        None \<Rightarrow> Inl ValueError
      | Some j \<Rightarrow> ebind (subscript j ''ResultSet'') (\<lambda>rs. subscript rs ''Result''))"

definition listed :: "string \<Rightarrow> string \<Rightarrow> json \<Rightarrow> error + bool" where
  "listed key v existing = ebind (py_iter existing) (exists_with key v)"

subsection \<open>\<open>Http.receive\<close>\<close>

text \<open>The local variables of \<open>Http.receive\<close> the calls use (source lines 110 to 132).\<close>

record receive_vars =
  r_auth_method_obj :: "credentials option"
  r_verify :: bool
  r_base_url :: string
  r_url :: string

definition receive_vars_of :: "dict \<Rightarrow> error + receive_vars" where
  "receive_vars_of access =
     ebind (auth_method_obj_of access) (\<lambda>auth_method_obj.
     let verify = (if truthy (dict_get access ''disableSSLVerification'') then False else True) in
     ebind (ebind (getitem access ''baseUrl'') rstrip_slash) (\<lambda>base_url.
     ebind (ebind (getitem access ''project'') as_str) (\<lambda>project.
     ebind (ebind (getitem access ''subject'') as_str) (\<lambda>subject.
     ebind (ebind (getitem access ''session'') as_str) (\<lambda>session.
     ebind (as_opt_str (dict_get access ''containerType'')) (\<lambda>container_type.
     ebind (as_opt_str (dict_get access ''container'')) (\<lambda>container.
     ebind (ebind (getitem access ''resource'') as_str) (\<lambda>resource.
     ebind (ebind (getitem access ''file'') as_str) (\<lambda>file.
     let url = base_url @ ''/REST/projects/'' @ project @ ''/subjects/'' @ subject
                 @ ''/experiments/'' @ session @ ''/resources/'' @ resource
                 @ ''/files/'' @ file;
         url = (if container_type \<noteq> None \<and> container_type \<noteq> Some []
                then base_url @ ''/REST/projects/'' @ project @ ''/subjects/'' @ subject
                       @ ''/experiments/'' @ session @ ''/'' @ py_str container_type
                       @ ''/'' @ py_str container @ ''/resources/'' @ resource
                       @ ''/files/'' @ file
                else url)
     in Inr \<lparr>r_auth_method_obj = auth_method_obj, r_verify = verify,
             r_base_url = base_url, r_url = url\<rparr>)))))))))"

definition receive_get :: "receive_vars \<Rightarrow> request" where
  "receive_get v =
     \<lparr>rq_method = GET, rq_url = r_url v, rq_auth = r_auth_method_obj v, rq_cookies = None,
      rq_verify = r_verify v, rq_stream = True, rq_data = None\<rparr>"

definition delete_session :: "string \<Rightarrow> bool \<Rightarrow> cookiejar \<Rightarrow> request" where
  "delete_session base_url verify cookies =
     \<lparr>rq_method = DELETE, rq_url = base_url @ ''/data/JSESSION'', rq_auth = None,
      rq_cookies = Some cookies, rq_verify = verify, rq_stream = False, rq_data = None\<rparr>"

definition receive :: "env \<Rightarrow> dict \<Rightarrow> dict \<Rightarrow> unit io" where
  "receive e access internal =
     io_bind (lift (receive_vars_of access)) (\<lambda>v.
     io_bind (requests e (receive_get v)) (\<lambda>r.
     io_bind (lift (raise_for_status r)) (\<lambda>_.
     io_bind (lift (ebind (getitem internal ''path'') as_str)) (\<lambda>path.
     io_bind (open_wb e path) (\<lambda>_.
     io_bind (iter_content_to path r) (\<lambda>_.
     io_bind (lift (raise_for_status r)) (\<lambda>_.
     let cookies = resp_cookies r in
     io_bind (requests e (delete_session (r_base_url v) (r_verify v) cookies)) (\<lambda>r.
     lift (raise_for_status r)))))))))"

subsection \<open>\<open>Http.send\<close>\<close>

text \<open>The local variables of \<open>Http.send\<close> (source lines 163 to 178).\<close>

record send_vars =
  auth_method_obj :: "credentials option"
  verify :: bool
  base_url :: string
  project :: string
  subject :: string
  session :: string
  container_type :: string
  container :: string
  resource :: string
  xsi_type :: string
  file_name :: string
  upsert :: json

definition send_vars_of :: "dict \<Rightarrow> error + send_vars" where
  "send_vars_of access =
     ebind (auth_method_obj_of access) (\<lambda>auth_method_obj.
     let verify = (if truthy (dict_get access ''disableSSLVerification'') then False else True) in
     ebind (ebind (getitem access ''baseUrl'') rstrip_slash) (\<lambda>base_url.
     ebind (ebind (getitem access ''project'') as_str) (\<lambda>project.
     ebind (ebind (getitem access ''subject'') as_str) (\<lambda>subject.
     ebind (ebind (getitem access ''session'') as_str) (\<lambda>session.
     ebind (ebind (getitem access ''containerType'') as_str) (\<lambda>container_type.
     ebind (ebind (getitem access ''container'') as_str) (\<lambda>container.
     ebind (case map_of access ''resource'' of
              None \<Rightarrow> Inr ''OTHER''
            | Some v \<Rightarrow> as_str v) (\<lambda>resource.
     ebind (ebind (getitem access ''xsiType'') as_str) (\<lambda>xsi_type.
     ebind (ebind (getitem access ''file'') as_str) (\<lambda>file.
     let upsert = dict_get access ''upsert''
     in Inr \<lparr>auth_method_obj = auth_method_obj, verify = verify, base_url = base_url,
             project = project, subject = subject, session = session,
             container_type = container_type, container = container,
             resource = resource, xsi_type = xsi_type, file_name = file,
             upsert = upsert\<rparr>))))))))))"

text \<open>The eight calls of \<open>Http.send\<close>, in the order of the source.\<close>

definition list_containers :: "send_vars \<Rightarrow> request" where
  "list_containers v =
     \<lparr>rq_method = GET,
      rq_url = base_url v @ ''/REST/projects/'' @ project v @ ''/subjects/'' @ subject v
                 @ ''/experiments/'' @ session v @ ''/'' @ container_type v
                 @ ''?format=json'',
      rq_auth = auth_method_obj v, rq_cookies = None, rq_verify = verify v,
      rq_stream = False, rq_data = None\<rparr>"

definition list_resources :: "send_vars \<Rightarrow> cookiejar \<Rightarrow> request" where
  "list_resources v cookies =
     \<lparr>rq_method = GET,
      rq_url = base_url v @ ''/REST/projects/'' @ project v @ ''/subjects/'' @ subject v
                 @ ''/experiments/'' @ session v @ ''/'' @ container_type v
                 @ ''/'' @ container v @ ''/resources?format=json'',
      rq_auth = None, rq_cookies = Some cookies, rq_verify = verify v,
      rq_stream = False, rq_data = None\<rparr>"

definition list_files :: "send_vars \<Rightarrow> cookiejar \<Rightarrow> request" where
  "list_files v cookies =
     \<lparr>rq_method = GET,
      rq_url = base_url v @ ''/REST/projects/'' @ project v @ ''/subjects/'' @ subject v
                 @ ''/experiments/'' @ session v @ ''/'' @ container_type v
                 @ ''/'' @ container v @ ''/resources/'' @ resource v
                 @ ''/files?format=json'',
      rq_auth = None, rq_cookies = Some cookies, rq_verify = verify v,
      rq_stream = False, rq_data = None\<rparr>"

definition delete_file :: "send_vars \<Rightarrow> cookiejar \<Rightarrow> request" where
  "delete_file v cookies =
     \<lparr>rq_method = DELETE,
      rq_url = base_url v @ ''/REST/projects/'' @ project v @ ''/subjects/'' @ subject v
                 @ ''/experiments/'' @ session v @ ''/'' @ container_type v
                 @ ''/'' @ container v @ ''/resources/'' @ resource v
                 @ ''/files/'' @ file_name v,
      rq_auth = None, rq_cookies = Some cookies, rq_verify = verify v,
      rq_stream = False, rq_data = None\<rparr>"

definition delete_container :: "send_vars \<Rightarrow> cookiejar \<Rightarrow> request" where
  "delete_container v cookies =
     \<lparr>rq_method = DELETE,
      rq_url = base_url v @ ''/REST/projects/'' @ project v @ ''/subjects/'' @ subject v
                 @ ''/experiments/'' @ session v @ ''/'' @ container_type v
                 @ ''/'' @ container v,
      rq_auth = None, rq_cookies = Some cookies, rq_verify = verify v,
      rq_stream = False, rq_data = None\<rparr>"

definition create_container :: "send_vars \<Rightarrow> cookiejar \<Rightarrow> request" where
  "create_container v cookies =
     \<lparr>rq_method = PUT,
      rq_url = base_url v @ ''/REST/projects/'' @ project v @ ''/subjects/'' @ subject v
                 @ ''/experiments/'' @ session v @ ''/'' @ container_type v
                 @ ''/'' @ container v @ ''?xsiType='' @ xsi_type v,
      rq_auth = None, rq_cookies = Some cookies, rq_verify = verify v,
      rq_stream = False, rq_data = None\<rparr>"

definition create_file :: "send_vars \<Rightarrow> cookiejar \<Rightarrow> bytes \<Rightarrow> request" where
  "create_file v cookies f =
     \<lparr>rq_method = PUT,
      rq_url = base_url v @ ''/REST/projects/'' @ project v @ ''/subjects/'' @ subject v
                 @ ''/experiments/'' @ session v @ ''/'' @ container_type v
                 @ ''/'' @ container v @ ''/resources/'' @ resource v
                 @ ''/files/'' @ file_name v @ ''?inbody=true'',
      rq_auth = None, rq_cookies = Some cookies, rq_verify = verify v,
      rq_stream = False, rq_data = Some f\<rparr>"

definition send :: "env \<Rightarrow> dict \<Rightarrow> dict \<Rightarrow> unit io" where
  "send e access internal =
     io_bind (lift (send_vars_of access)) (\<lambda>v.
     io_bind (requests e (list_containers v)) (\<lambda>r.
     io_bind (lift (raise_for_status r)) (\<lambda>_.
     io_bind (lift (result_of r)) (\<lambda>existing_containers.
     let cookies = resp_cookies r in
     io_bind (lift (listed ''ID'' (container v) existing_containers)) (\<lambda>container_exists.
     io_bind
       (if container_exists then
          if \<not> truthy (upsert v) then
            io_raise (PyException (''Container '' @ container v
                                    @ '' already exists and upsert is not set.''))
          else
            io_bind (requests e (list_resources v cookies)) (\<lambda>r.
            io_bind (lift (raise_for_status r)) (\<lambda>_.
            io_bind (lift (result_of r)) (\<lambda>existing_resources.
            io_bind (lift (listed ''label'' (resource v) existing_resources)) (\<lambda>resource_exists.
            io_bind
              (if resource_exists then
                 io_bind (requests e (list_files v cookies)) (\<lambda>r.
                 io_bind (lift (raise_for_status r)) (\<lambda>_.
                 io_bind (lift (result_of r)) (\<lambda>existing_files.
                 io_bind (lift (listed ''Name'' (file_name v) existing_files)) (\<lambda>file_exists.
                 if file_exists then
                   io_bind (requests e (delete_file v cookies)) (\<lambda>r.
                   lift (raise_for_status r))
                 else io_return ()))))
               else io_return ()) (\<lambda>_.
            io_bind (requests e (delete_container v cookies)) (\<lambda>r.
            lift (raise_for_status r)))))))
        else io_return ()) (\<lambda>_.
     io_bind (requests e (create_container v cookies)) (\<lambda>r.
     io_bind (lift (raise_for_status r)) (\<lambda>_.
     io_bind (lift (ebind (getitem internal ''path'') as_str)) (\<lambda>path.
     io_bind (open_rb path) (\<lambda>f.
     io_bind (requests e (create_file v cookies f)) (\<lambda>r.
     io_bind (lift (raise_for_status r)) (\<lambda>_.
     io_bind (requests e (delete_session (base_url v) (verify v) cookies)) (\<lambda>r.
     lift (raise_for_status r))))))))))))))"

section \<open>Observations on a run\<close>

text \<open>The HTTP calls among the events, in the order they were issued.\<close>

fun calls_of :: "event list \<Rightarrow> request list" where
  "calls_of [] = []"
| "calls_of (Http q rep # es) = q # calls_of es"
| "calls_of (Open path mode # es) = calls_of es"
| "calls_of (Write path chunk # es) = calls_of es"

text \<open>What a run that started in \<open>w\<close> and ended in \<open>w'\<close> added to the trace.\<close>

definition new_events :: "world \<Rightarrow> world \<Rightarrow> event list" where
  "new_events w w' = drop (length (trace w)) (trace w')"

text \<open>
  The server, knowing the history \<open>h\<close>, answers the listing request \<open>q\<close> with the
  successful response \<open>r\<close>, and the loop of the connector over the listed entries
  finds (\<open>b = True\<close>) or does not find (\<open>b = False\<close>) an entry whose \<open>key\<close> is
  \<open>val\<close>.
\<close>

definition answers :: "env \<Rightarrow> event list \<Rightarrow> request \<Rightarrow> response \<Rightarrow> string \<Rightarrow> string \<Rightarrow> bool \<Rightarrow> bool" where
  "answers e h q r key val b =
     (server e h q = Response r \<and> ok r \<and> ebind (result_of r) (listed key val) = Inr b)"

text \<open>A call that is not a \<open>GET\<close>.\<close>

definition mutating :: "request \<Rightarrow> bool" where
  "mutating q = (rq_method q \<noteq> GET)"

text \<open>The call that invalidates the session: \<open>DELETE {base}/data/JSESSION\<close>.\<close>

definition closes_session :: "send_vars \<Rightarrow> request \<Rightarrow> bool" where
  "closes_session v q = (rq_method q = DELETE \<and> rq_url q = base_url v @ ''/data/JSESSION'')"

text \<open>The content of the local file \<open>internal['path']\<close> (empty when it cannot be read).\<close>

definition local_file :: "dict \<Rightarrow> world \<Rightarrow> bytes" where
  "local_file internal w =
     (case ebind (getitem internal ''path'') as_str of
        Inl err \<Rightarrow> []
      | Inr path \<Rightarrow> (case files w path of None \<Rightarrow> [] | Some content \<Rightarrow> content))"

text \<open>
  The first response of a trace that is not a success, with its status code and the
  events that came after it.
\<close>

fun first_failure :: "event list \<Rightarrow> (nat \<times> event list) option" where
  "first_failure [] = None"
| "first_failure (Http q (Response r) # es) =
     (if ok r then first_failure es else Some (status_code r, es))"
| "first_failure (Http q NoResponse # es) = first_failure es"
| "first_failure (Open path mode # es) = first_failure es"
| "first_failure (Write path chunk # es) = first_failure es"

text \<open>
  The credentials go out once: the first event is a call that carries \<open>cred\<close> and no
  cookies, and every later call carries no credentials but the cookies of the first
  response.
\<close>

definition authenticated_once :: "credentials \<Rightarrow> event list \<Rightarrow> bool" where
  "authenticated_once cred evs =
     (case evs of
        [] \<Rightarrow> True
      | Http q rep # rest \<Rightarrow>
          rq_auth q = Some cred \<and> rq_cookies q = None \<and>
          (case rep of
             NoResponse \<Rightarrow> calls_of rest = []
           | Response r \<Rightarrow>
               list_all (\<lambda>q'. rq_auth q' = None \<and> rq_cookies q' = Some (resp_cookies r))
                        (calls_of rest))
      | _ \<Rightarrow> False)"

text \<open>\<open>Q\<close> holds of the result and the world the action \<open>m\<close> ends with.\<close>

definition holds_after :: "'a io \<Rightarrow> world \<Rightarrow> (error + 'a \<Rightarrow> world \<Rightarrow> bool) \<Rightarrow> bool" where
  "holds_after m w Q = (case m w of (res, w') \<Rightarrow> Q res w')"

section \<open>The shapes of an access description\<close>

text \<open>
  The field lists of the two receive shapes as the specification gives them, and what it
  is for a description to have exactly the fields of a list: all of them and no other.
\<close>

definition has_exactly :: "string list \<Rightarrow> json \<Rightarrow> bool" where
  "has_exactly names j =
     (case j of
        JObj d \<Rightarrow> list_all (\<lambda>k. k \<in> set (map fst d)) names
                  \<and> list_all (\<lambda>k. k \<in> set names) (map fst d)
      | _ \<Rightarrow> False)"

definition container_qualified_fields :: "string list" where
  "container_qualified_fields =
     [''baseUrl'', ''project'', ''subject'', ''session'', ''containerType'', ''container'',
      ''resource'', ''file'', ''auth'']"

definition container_less_fields :: "string list" where
  "container_less_fields =
     [''baseUrl'', ''project'', ''subject'', ''session'', ''resource'', ''file'', ''auth'']"

text \<open>
  The shapes the schemas accept, field by field: a field that must be a string, a field
  that may be missing but is a string (a boolean) when present, the container type from
  its enumeration, the \<open>auth\<close> object, and the fields that may occur at all.
\<close>

definition has_string :: "dict \<Rightarrow> string \<Rightarrow> bool" where
  "has_string d k = (case map_of d k of Some (JStr s) \<Rightarrow> True | _ \<Rightarrow> False)"

definition may_have_string :: "dict \<Rightarrow> string \<Rightarrow> bool" where
  "may_have_string d k = (case map_of d k of None \<Rightarrow> True | Some (JStr s) \<Rightarrow> True | _ \<Rightarrow> False)"

definition may_have_boolean :: "dict \<Rightarrow> string \<Rightarrow> bool" where
  "may_have_boolean d k = (case map_of d k of None \<Rightarrow> True | Some (JBool b) \<Rightarrow> True | _ \<Rightarrow> False)"

definition has_container_type :: "dict \<Rightarrow> bool" where
  "has_container_type d =
     (case map_of d ''containerType'' of
        Some (JStr s) \<Rightarrow> s \<in> {''scans'', ''reconstructions'', ''assessors''}
      | _ \<Rightarrow> False)"

definition only_keys :: "string list \<Rightarrow> dict \<Rightarrow> bool" where
  "only_keys ks d = (set (map fst d) \<subseteq> set ks)"

definition has_auth :: "dict \<Rightarrow> bool" where
  "has_auth d =
     (case map_of d ''auth'' of
        Some (JObj au) \<Rightarrow>
          has_string au ''username'' \<and> has_string au ''password''
          \<and> only_keys [''username'', ''password''] au
      | _ \<Rightarrow> False)"

definition send_shape :: "json \<Rightarrow> bool" where
  "send_shape j =
     (case j of
        JObj d \<Rightarrow>
          has_string d ''baseUrl'' \<and> has_string d ''project'' \<and> has_string d ''subject''
          \<and> has_string d ''session'' \<and> has_container_type d \<and> has_string d ''container''
          \<and> has_string d ''xsiType'' \<and> has_string d ''file'' \<and> has_auth d
          \<and> may_have_string d ''resource'' \<and> may_have_boolean d ''upsert''
          \<and> may_have_boolean d ''disableSSLVerification''
          \<and> only_keys [''baseUrl'', ''project'', ''subject'', ''session'', ''containerType'',
                        ''container'', ''resource'', ''xsiType'', ''file'', ''upsert'', ''auth'',
                        ''disableSSLVerification''] d
      | _ \<Rightarrow> False)"

definition container_qualified_shape :: "json \<Rightarrow> bool" where
  "container_qualified_shape j =
     (case j of
        JObj d \<Rightarrow>
          has_string d ''baseUrl'' \<and> has_string d ''project'' \<and> has_string d ''subject''
          \<and> has_string d ''session'' \<and> has_container_type d \<and> has_string d ''container''
          \<and> has_string d ''resource'' \<and> has_string d ''file'' \<and> has_auth d
          \<and> may_have_boolean d ''disableSSLVerification''
          \<and> only_keys [''baseUrl'', ''project'', ''subject'', ''session'', ''containerType'',
                        ''container'', ''resource'', ''file'', ''auth'',
                        ''disableSSLVerification''] d
      | _ \<Rightarrow> False)"

definition container_less_shape :: "json \<Rightarrow> bool" where
  "container_less_shape j =
     (case j of
        JObj d \<Rightarrow>
          has_string d ''baseUrl'' \<and> has_string d ''project'' \<and> has_string d ''subject''
          \<and> has_string d ''session'' \<and> has_string d ''resource'' \<and> has_string d ''file''
          \<and> has_auth d \<and> may_have_boolean d ''disableSSLVerification''
          \<and> only_keys [''baseUrl'', ''project'', ''subject'', ''session'', ''resource'',
                        ''file'', ''auth'', ''disableSSLVerification''] d
      | _ \<Rightarrow> False)"

text \<open>The \<open>properties\<close> keyword for one property: a value that is present is valid.\<close>

definition property_ok :: "dict \<Rightarrow> string \<Rightarrow> schema \<Rightarrow> bool" where
  "property_ok d k s = (case map_of d k of None \<Rightarrow> True | Some v \<Rightarrow> validates s v)"

text \<open>The string stored under a key (empty when there is none).\<close>

definition str_field :: "dict \<Rightarrow> string \<Rightarrow> string" where
  "str_field d k = (case map_of d k of Some (JStr s) \<Rightarrow> s | _ \<Rightarrow> [])"

section \<open>A sample server and sample descriptions\<close>

definition demo_auth :: json where
  "demo_auth = JObj [(''username'', JStr ''u''), (''password'', JStr ''pw'')]"

definition demo_send_access :: dict where
  "demo_send_access =
     [(''baseUrl'', JStr ''h://x/''), (''project'', JStr ''P''), (''subject'', JStr ''S''),
      (''session'', JStr ''E''), (''containerType'', JStr ''scans''),
      (''container'', JStr ''SCAN1''), (''resource'', JStr ''DICOM''),
      (''xsiType'', JStr ''mr''), (''file'', JStr ''a.dcm''), (''upsert'', JBool True),
      (''auth'', demo_auth)]"

definition demo_send_vars :: send_vars where
  "demo_send_vars =
     \<lparr>auth_method_obj = Some (HTTPBasicAuth (JStr ''u'') (JStr ''pw'')), verify = True,
      base_url = ''h://x'', project = ''P'', subject = ''S'', session = ''E'',
      container_type = ''scans'', container = ''SCAN1'', resource = ''DICOM'',
      xsi_type = ''mr'', file_name = ''a.dcm'', upsert = JBool True\<rparr>"

definition demo_receive_access :: dict where
  "demo_receive_access =
     [(''baseUrl'', JStr ''h://x/''), (''project'', JStr ''P''), (''subject'', JStr ''S''),
      (''session'', JStr ''E''), (''containerType'', JStr ''scans''),
      (''container'', JStr ''SCAN1''), (''resource'', JStr ''DICOM''),
      (''file'', JStr ''a.dcm''), (''auth'', demo_auth)]"

definition demo_receive_plain :: dict where
  "demo_receive_plain =
     [(''baseUrl'', JStr ''h://x/''), (''project'', JStr ''P''), (''subject'', JStr ''S''),
      (''session'', JStr ''E''), (''resource'', JStr ''DICOM''), (''file'', JStr ''a.dcm''),
      (''auth'', demo_auth), (''disableSSLVerification'', JBool True)]"

definition demo_receive_vars :: receive_vars where
  "demo_receive_vars =
     \<lparr>r_auth_method_obj = Some (HTTPBasicAuth (JStr ''u'') (JStr ''pw'')), r_verify = True,
      r_base_url = ''h://x'',
      r_url = ''h://x/REST/projects/P/subjects/S/experiments/E/scans/SCAN1/resources/DICOM/files/a.dcm''\<rparr>"

definition demo_internal :: dict where
  "demo_internal = [(''path'', JStr ''/f'')]"

definition demo_world :: world where
  "demo_world = \<lparr>trace = [], files = [''/f'' \<mapsto> ''DICM'']\<rparr>"

definition demo_cookies :: cookiejar where
  "demo_cookies = [(''JSESSIONID'', ''c1'')]"

text \<open>A successful response listing one entry whose \<open>key\<close> is \<open>val\<close>.\<close>

definition demo_listing :: "string \<Rightarrow> string \<Rightarrow> response" where
  "demo_listing key val =
     \<lparr>status_code = 200,
      json_body = Some (JObj [(''ResultSet'', JObj [(''Result'', JArr [JObj [(key, JStr val)]])])]),
      chunks = [], broken = False, resp_cookies = demo_cookies\<rparr>"

text \<open>A successful response listing nothing.\<close>

definition demo_empty :: response where
  "demo_empty =
     \<lparr>status_code = 200,
      json_body = Some (JObj [(''ResultSet'', JObj [(''Result'', JArr [])])]),
      chunks = [], broken = False, resp_cookies = demo_cookies\<rparr>"

text \<open>A successful response with a body of three chunks, the second one empty.\<close>

definition demo_body :: response where
  "demo_body =
     \<lparr>status_code = 200, json_body = None, chunks = [''XN'', [], ''AT''], broken = False,
      resp_cookies = demo_cookies\<rparr>"

definition demo_failure :: response where
  "demo_failure =
     \<lparr>status_code = 500, json_body = None, chunks = [], broken = False, resp_cookies = []\<rparr>"

text \<open>A server on which container \<open>SCAN1\<close> exists with resource \<open>DICOM\<close> holding
  \<open>a.dcm\<close>: it lists them in turn and accepts every other call.\<close>

definition demo_server :: "event list \<Rightarrow> request \<Rightarrow> reply" where
  "demo_server h q =
     (if rq_method q = GET then
        (if h = [] then Response (demo_listing ''ID'' ''SCAN1'')
         else if length h = 1 then Response (demo_listing ''label'' ''DICOM'')
         else Response (demo_listing ''Name'' ''a.dcm''))
      else Response demo_body)"

definition demo_env :: env where
  "demo_env = \<lparr>server = demo_server, writable = (\<lambda>path. True)\<rparr>"

text \<open>A server without any container, one that serves a file, one that fails.\<close>

definition demo_env_empty :: env where
  "demo_env_empty = \<lparr>server = (\<lambda>h q. Response demo_empty), writable = (\<lambda>path. True)\<rparr>"

definition demo_env_file :: env where
  "demo_env_file = \<lparr>server = (\<lambda>h q. Response demo_body), writable = (\<lambda>path. True)\<rparr>"

definition demo_env_failing :: env where
  "demo_env_failing = \<lparr>server = (\<lambda>h q. Response demo_failure), writable = (\<lambda>path. True)\<rparr>"

section \<open>Properties of the Python operations\<close>

lemma rstrip_replicate: "rstrip [c] (b @ replicate n c) = rstrip [c] b"
proof -
  have "dropWhile (\<lambda>x. x = c) (replicate n c @ ys) = dropWhile (\<lambda>x. x = c) ys" for ys
    by (induction n) simp_all
  then show ?thesis by (simp add: rstrip_def)
qed

lemmas lookup_defs = dict_get_def getitem_def subscript_def ebind_def

lemmas io_defs = io_bind_def io_return_def io_raise_def lift_def requests_def
  raise_for_status_def

lemma receive_vars_of_cong:
  "map_of a = map_of a' \<Longrightarrow> receive_vars_of a = receive_vars_of a'"
  by (simp add: receive_vars_of_def auth_method_obj_of_def dict_get_def getitem_def)

lemma send_vars_of_cong:
  "map_of a = map_of a' \<Longrightarrow> send_vars_of a = send_vars_of a'"
  by (simp add: send_vars_of_def auth_method_obj_of_def dict_get_def getitem_def)

lemma receive_vars_of_slash:
  "receive_vars_of (AList.update ''baseUrl'' (JStr (b @ replicate n (CHR ''/''))) a)
   = receive_vars_of (AList.update ''baseUrl'' (JStr b) a)"
  by (simp add: receive_vars_of_def auth_method_obj_of_def lookup_defs update_conv'
                rstrip_slash_def rstrip_replicate)

lemma send_vars_of_slash:
  "send_vars_of (AList.update ''baseUrl'' (JStr (b @ replicate n (CHR ''/''))) a)
   = send_vars_of (AList.update ''baseUrl'' (JStr b) a)"
  by (simp add: send_vars_of_def auth_method_obj_of_def lookup_defs update_conv'
                rstrip_slash_def rstrip_replicate)

lemma send_vars_of_upsert:
  "send_vars_of access = Inr v \<Longrightarrow> upsert v = dict_get access ''upsert''"
  by (auto simp: send_vars_of_def ebind_def Let_def split: sum.splits if_splits option.splits)

lemma answersD:
  "answers e h q r key val b \<Longrightarrow>
     server e h q = Response r \<and> ok r
     \<and> (\<exists>existing. result_of r = Inr existing \<and> listed key val existing = Inr b)"
  by (auto simp: answers_def ebind_def split: sum.splits)

subsection \<open>Events\<close>

lemma new_events_append [simp]: "new_events w (w\<lparr>trace := trace w @ es\<rparr>) = es"
  by (simp add: new_events_def)

lemma new_events_self [simp]: "new_events w w = []"
  by (simp add: new_events_def)

lemma calls_of_append [simp]: "calls_of (xs @ ys) = calls_of xs @ calls_of ys"
  by (induction xs rule: calls_of.induct) simp_all

lemma calls_of_writes [simp]: "calls_of (map (Write path) cs) = []"
  by (induction cs) simp_all

lemma first_failure_writes [simp]: "first_failure (map (Write path) cs @ es) = first_failure es"
  by (induction cs) simp_all

lemma trace_write_chunks:
  "trace (write_chunks path cs w) = trace w @ map (Write path) (filter (\<lambda>c. c \<noteq> []) cs)"
  by (induction cs arbitrary: w) (simp_all add: f_write_def)

subsection \<open>Running an operation step by step\<close>

lemma holds_afterD: "holds_after m w Q \<Longrightarrow> m w = (res, w') \<Longrightarrow> Q res w'"
  by (simp add: holds_after_def)

lemma after_lift: "holds_after (lift m) w Q = Q m w"
  by (simp add: holds_after_def lift_def)

lemma after_return: "holds_after (io_return x) w Q = Q (Inr x) w"
  by (simp add: holds_after_def io_return_def)

lemma after_raise: "holds_after (io_raise err) w Q = Q (Inl err) w"
  by (simp add: holds_after_def io_raise_def)

lemma after_bind_lift:
  "holds_after (io_bind (lift m) f) w Q
   = ((\<forall>err. m = Inl err \<longrightarrow> Q (Inl err) w) \<and> (\<forall>x. m = Inr x \<longrightarrow> holds_after (f x) w Q))"
  by (cases m) (simp_all add: holds_after_def io_bind_def lift_def)

lemma raise_for_status_Inl:
  "(raise_for_status r = Inl err) = (\<not> ok r \<and> err = HTTPError (status_code r))"
  by (auto simp: raise_for_status_def)

lemma raise_for_status_Inr: "(raise_for_status r = Inr x) = ok r"
  by (auto simp: raise_for_status_def)

lemma after_status:
  "holds_after (lift (raise_for_status r)) w Q
   = ((ok r \<longrightarrow> Q (Inr ()) w) \<and> (\<not> ok r \<longrightarrow> Q (Inl (HTTPError (status_code r))) w))"
  by (simp add: after_lift raise_for_status_def)

lemma after_bind_requests:
  "holds_after (io_bind (requests e q) f) w Q
   = ((server e (trace w) q = NoResponse \<longrightarrow>
         Q (Inl ConnectionError) (w\<lparr>trace := trace w @ [Http q NoResponse]\<rparr>))
    \<and> (\<forall>r. server e (trace w) q = Response r \<longrightarrow>
         holds_after (f r) (w\<lparr>trace := trace w @ [Http q (Response r)]\<rparr>) Q))"
  by (cases "server e (trace w) q")
     (simp_all add: holds_after_def io_bind_def requests_def Let_def)

lemma after_bind_if:
  "holds_after (io_bind (if c then m1 else m2) f) w Q
   = ((c \<longrightarrow> holds_after (io_bind m1 f) w Q) \<and> (\<not> c \<longrightarrow> holds_after (io_bind m2 f) w Q))"
  by simp

lemma after_if:
  "holds_after (if c then m1 else m2) w Q
   = ((c \<longrightarrow> holds_after m1 w Q) \<and> (\<not> c \<longrightarrow> holds_after m2 w Q))"
  by simp

lemma io_bind_assoc: "io_bind (io_bind m g) f = io_bind m (\<lambda>x. io_bind (g x) f)"
  by (rule ext) (simp add: io_bind_def split: prod.split sum.split)

lemma io_bind_return: "io_bind (io_return x) f = f x"
  by (rule ext) (simp add: io_bind_def io_return_def)

lemma after_bind_raise: "holds_after (io_bind (io_raise err) f) w Q = Q (Inl err) w"
  by (simp add: holds_after_def io_bind_def io_raise_def)

lemma after_bind_open_rb:
  "holds_after (io_bind (open_rb path) f) w Q
   = ((files w path = None \<longrightarrow> Q (Inl OSError) (w\<lparr>trace := trace w @ [Open path ''rb'']\<rparr>))
    \<and> (\<forall>content. files w path = Some content \<longrightarrow>
          holds_after (f content) (w\<lparr>trace := trace w @ [Open path ''rb'']\<rparr>) Q))"
  by (cases "files w path") (simp_all add: holds_after_def io_bind_def open_rb_def Let_def)

lemma after_bind_open_wb:
  "holds_after (io_bind (open_wb e path) f) w Q
   = ((\<not> writable e path \<longrightarrow> Q (Inl OSError) (w\<lparr>trace := trace w @ [Open path ''wb'']\<rparr>))
    \<and> (writable e path \<longrightarrow>
          holds_after (f ())
            (w\<lparr>trace := trace w @ [Open path ''wb''], files := (files w)(path \<mapsto> [])\<rparr>) Q))"
  by (simp add: holds_after_def io_bind_def open_wb_def Let_def)

lemma after_bind_iter_content:
  "holds_after (io_bind (iter_content_to path r) f) w Q
   = ((broken r \<longrightarrow> Q (Inl ConnectionError) (write_chunks path (chunks r) w))
    \<and> (\<not> broken r \<longrightarrow> holds_after (f ()) (write_chunks path (chunks r) w) Q))"
  by (simp add: holds_after_def io_bind_def iter_content_to_def Let_def)

lemmas after_rules = after_status after_bind_lift after_bind_requests after_bind_if after_if
  io_bind_assoc io_bind_return after_bind_raise after_bind_open_rb after_bind_open_wb
  after_bind_iter_content after_return after_raise after_lift
  raise_for_status_Inl raise_for_status_Inr

subsection \<open>The calls of the two operations\<close>

lemma rq_method_calls [simp]:
  "rq_method (list_containers v) = GET"
  "rq_method (list_resources v c) = GET"
  "rq_method (list_files v c) = GET"
  "rq_method (delete_file v c) = DELETE"
  "rq_method (delete_container v c) = DELETE"
  "rq_method (create_container v c) = PUT"
  "rq_method (create_file v c d) = PUT"
  "rq_method (delete_session b vf c) = DELETE"
  "rq_method (receive_get rv) = GET"
  by (simp_all add: list_containers_def list_resources_def list_files_def delete_file_def
        delete_container_def create_container_def create_file_def delete_session_def
        receive_get_def)

lemma rq_auth_calls [simp]:
  "rq_auth (list_containers v) = auth_method_obj v"
  "rq_auth (list_resources v c) = None"
  "rq_auth (list_files v c) = None"
  "rq_auth (delete_file v c) = None"
  "rq_auth (delete_container v c) = None"
  "rq_auth (create_container v c) = None"
  "rq_auth (create_file v c d) = None"
  "rq_auth (delete_session b vf c) = None"
  "rq_auth (receive_get rv) = r_auth_method_obj rv"
  by (simp_all add: list_containers_def list_resources_def list_files_def delete_file_def
        delete_container_def create_container_def create_file_def delete_session_def
        receive_get_def)

lemma rq_cookies_calls [simp]:
  "rq_cookies (list_containers v) = None"
  "rq_cookies (list_resources v c) = Some c"
  "rq_cookies (list_files v c) = Some c"
  "rq_cookies (delete_file v c) = Some c"
  "rq_cookies (delete_container v c) = Some c"
  "rq_cookies (create_container v c) = Some c"
  "rq_cookies (create_file v c d) = Some c"
  "rq_cookies (delete_session b vf c) = Some c"
  "rq_cookies (receive_get rv) = None"
  by (simp_all add: list_containers_def list_resources_def list_files_def delete_file_def
        delete_container_def create_container_def create_file_def delete_session_def
        receive_get_def)

lemma closes_session_calls [simp]:
  "closes_session v (delete_session (base_url v) vf c)"
  "\<not> closes_session v (create_container v c)"
  "\<not> closes_session v (create_file v c d)"
  by (simp_all add: closes_session_def delete_session_def)

subsection \<open>Reading the access description\<close>

lemma ebind_Inr: "(ebind m f = Inr y) = (\<exists>x. m = Inr x \<and> f x = Inr y)"
  by (cases m) (simp_all add: ebind_def)

lemma send_vars_of_set_upsert:
  assumes "send_vars_of access = Inr v"
  shows "send_vars_of (AList.update ''upsert'' u access) = Inr (v\<lparr>upsert := u\<rparr>)"
    and "send_vars_of (AList.delete ''upsert'' access) = Inr (v\<lparr>upsert := JNull\<rparr>)"
  using assms
  by (auto simp: send_vars_of_def auth_method_obj_of_def ebind_Inr Let_def update_conv'
                 delete_conv' dict_get_def getitem_def)

lemma calls_upsert [simp]:
  "list_containers (v\<lparr>upsert := u\<rparr>) = list_containers v"
  "list_resources (v\<lparr>upsert := u\<rparr>) = list_resources v"
  "list_files (v\<lparr>upsert := u\<rparr>) = list_files v"
  "delete_file (v\<lparr>upsert := u\<rparr>) = delete_file v"
  "delete_container (v\<lparr>upsert := u\<rparr>) = delete_container v"
  "create_container (v\<lparr>upsert := u\<rparr>) = create_container v"
  "create_file (v\<lparr>upsert := u\<rparr>) = create_file v"
  by (simp_all add: fun_eq_iff list_containers_def list_resources_def list_files_def
        delete_file_def delete_container_def create_container_def create_file_def)

lemma first_failure_only_writes [simp]: "first_failure (map (Write path) cs) = None"
  by (induction cs) simp_all

lemma auth_method_obj_of_basic:
  assumes "map_of access ''auth'' = Some (JObj au)"
      and "map_of au ''username'' = Some u" and "map_of au ''password'' = Some p"
  shows "auth_method_obj_of access = Inr (Some (HTTPBasicAuth u p))"
proof -
  have "au \<noteq> []" using assms(2) by auto
  then show ?thesis using assms by (simp add: auth_method_obj_of_def lookup_defs)
qed

lemma send_vars_of_auth:
  "send_vars_of access = Inr v \<Longrightarrow> auth_method_obj_of access = Inr (auth_method_obj v)"
  by (auto simp: send_vars_of_def ebind_Inr Let_def)

lemma receive_vars_of_auth:
  "receive_vars_of access = Inr v \<Longrightarrow> auth_method_obj_of access = Inr (r_auth_method_obj v)"
  by (auto simp: receive_vars_of_def ebind_Inr Let_def)

subsection \<open>The sample runs\<close>

lemma demo_send_vars_of: "send_vars_of demo_send_access = Inr demo_send_vars"
  by (simp add: send_vars_of_def auth_method_obj_of_def lookup_defs demo_send_access_def
        demo_auth_def demo_send_vars_def rstrip_slash_def rstrip_def as_str_def)

lemma demo_receive_vars_of: "receive_vars_of demo_receive_access = Inr demo_receive_vars"
  by (simp add: receive_vars_of_def auth_method_obj_of_def lookup_defs demo_receive_access_def
        demo_auth_def demo_receive_vars_def rstrip_slash_def rstrip_def as_str_def
        as_opt_str_def py_str_def)

lemma demo_send_vars_fields [simp]:
  "container demo_send_vars = ''SCAN1''" "resource demo_send_vars = ''DICOM''"
  "file_name demo_send_vars = ''a.dcm''" "upsert demo_send_vars = JBool True"
  "base_url demo_send_vars = ''h://x''" "verify demo_send_vars = True"
  "auth_method_obj demo_send_vars = Some (HTTPBasicAuth (JStr ''u'') (JStr ''pw''))"
  by (simp_all add: demo_send_vars_def)

lemma demo_receive_vars_fields [simp]:
  "r_base_url demo_receive_vars = ''h://x''" "r_verify demo_receive_vars = True"
  "r_auth_method_obj demo_receive_vars = Some (HTTPBasicAuth (JStr ''u'') (JStr ''pw''))"
  by (simp_all add: demo_receive_vars_def)

lemma demo_listing_found [simp]:
  "ok (demo_listing key val)"
  "resp_cookies (demo_listing key val) = demo_cookies"
  "result_of (demo_listing key val) = Inr (JArr [JObj [(key, JStr val)]])"
  "listed key val (JArr [JObj [(key, JStr val)]]) = Inr True"
  by (simp_all add: ok_def demo_listing_def result_of_def listed_def py_iter_def lookup_defs)

lemma demo_empty_found [simp]:
  "ok demo_empty"
  "resp_cookies demo_empty = demo_cookies"
  "result_of demo_empty = Inr (JArr [])"
  "listed key val (JArr []) = Inr False"
  by (simp_all add: ok_def demo_empty_def result_of_def listed_def py_iter_def lookup_defs)

lemma demo_body_ok [simp]:
  "ok demo_body" "resp_cookies demo_body = demo_cookies" "\<not> broken demo_body"
  "chunks demo_body = [''XN'', [], ''AT'']"
  by (simp_all add: ok_def demo_body_def)

lemma demo_failure_status [simp]: "\<not> ok demo_failure" "status_code demo_failure = 500"
  by (simp_all add: ok_def demo_failure_def)

lemma demo_local_file [simp]: "local_file demo_internal demo_world = ''DICM''"
  by (simp add: local_file_def demo_internal_def demo_world_def lookup_defs as_str_def)

lemma demo_send_run:
  "send demo_env demo_send_access demo_internal demo_world =
     (Inr (), demo_world\<lparr>trace :=
        [Http (list_containers demo_send_vars) (Response (demo_listing ''ID'' ''SCAN1'')),
         Http (list_resources demo_send_vars demo_cookies)
              (Response (demo_listing ''label'' ''DICOM'')),
         Http (list_files demo_send_vars demo_cookies)
              (Response (demo_listing ''Name'' ''a.dcm'')),
         Http (delete_file demo_send_vars demo_cookies) (Response demo_body),
         Http (delete_container demo_send_vars demo_cookies) (Response demo_body),
         Http (create_container demo_send_vars demo_cookies) (Response demo_body),
         Open ''/f'' ''rb'',
         Http (create_file demo_send_vars demo_cookies ''DICM'') (Response demo_body),
         Http (delete_session ''h://x'' True demo_cookies) (Response demo_body)]\<rparr>)"
  by (simp add: send_def io_defs Let_def demo_send_vars_of demo_env_def demo_server_def
        demo_world_def demo_internal_def open_rb_def ebind_def getitem_def as_str_def)

lemma demo_send_empty_run:
  "send demo_env_empty demo_send_access demo_internal demo_world =
     (Inr (), demo_world\<lparr>trace :=
        [Http (list_containers demo_send_vars) (Response demo_empty),
         Http (create_container demo_send_vars demo_cookies) (Response demo_empty),
         Open ''/f'' ''rb'',
         Http (create_file demo_send_vars demo_cookies ''DICM'') (Response demo_empty),
         Http (delete_session ''h://x'' True demo_cookies) (Response demo_empty)]\<rparr>)"
  by (simp add: send_def io_defs Let_def demo_send_vars_of demo_env_empty_def
        demo_world_def demo_internal_def open_rb_def ebind_def getitem_def as_str_def)

lemma demo_send_failing_run:
  "send demo_env_failing demo_send_access demo_internal demo_world =
     (Inl (HTTPError 500),
      demo_world\<lparr>trace := [Http (list_containers demo_send_vars) (Response demo_failure)]\<rparr>)"
  by (simp add: send_def io_defs Let_def demo_send_vars_of demo_env_failing_def demo_world_def)

lemma demo_receive_run:
  "receive demo_env_file demo_receive_access demo_internal demo_world =
     (Inr (), \<lparr>trace =
        [Http (receive_get demo_receive_vars) (Response demo_body),
         Open ''/f'' ''wb'', Write ''/f'' ''XN'', Write ''/f'' ''AT'',
         Http (delete_session ''h://x'' True demo_cookies) (Response demo_body)],
        files = [''/f'' \<mapsto> ''XNAT'']\<rparr>)"
  by (simp add: receive_def io_defs Let_def demo_receive_vars_of demo_env_file_def
        demo_world_def demo_internal_def open_wb_def iter_content_to_def f_write_def
        ebind_def getitem_def as_str_def)

subsection \<open>Validation against the schemas\<close>

lemma validates_object:
  "validates (TObject props False req) (JObj d)
   = (list_all (\<lambda>p. property_ok d (fst p) (snd p)) props
      \<and> only_keys (map fst props) d
      \<and> list_all (\<lambda>k. map_of d k \<noteq> None) req)"
proof -
  have keys: "list_all (\<lambda>k. k \<in> set (map fst props)) (map fst d) = only_keys (map fst props) d"
    by (auto simp: only_keys_def list_all_iff)
  have required: "list_all (\<lambda>k. k \<in> set (map fst d)) req = list_all (\<lambda>k. map_of d k \<noteq> None) req"
    by (simp add: list_all_iff map_of_eq_None_iff)
  show ?thesis
    unfolding validates.simps json.case keys required
    by (simp add: property_ok_def)
qed

lemma has_string_iff: "has_string d k = (property_ok d k TString \<and> map_of d k \<noteq> None)"
  by (auto simp: has_string_def property_ok_def split: option.splits json.splits)

lemma may_have_string_iff: "may_have_string d k = property_ok d k TString"
  by (auto simp: may_have_string_def property_ok_def split: option.splits json.splits)

lemma may_have_boolean_iff: "may_have_boolean d k = property_ok d k TBoolean"
  by (auto simp: may_have_boolean_def property_ok_def split: option.splits json.splits)

lemma has_container_type_iff:
  "has_container_type d
   = (property_ok d ''containerType'' (TEnum [''scans'', ''reconstructions'', ''assessors''])
      \<and> map_of d ''containerType'' \<noteq> None)"
  by (auto simp: has_container_type_def property_ok_def split: option.splits json.splits)

lemma validates_auth:
  "validates auth_schema j
   = (case j of
        JObj au \<Rightarrow> has_string au ''username'' \<and> has_string au ''password''
                   \<and> only_keys [''username'', ''password''] au
      | _ \<Rightarrow> False)"
proof (cases j)
  case (JObj au)
  show ?thesis
    unfolding JObj auth_schema_def validates_object
    by (simp add: has_string_iff) blast
qed (simp_all add: auth_schema_def)

lemma has_auth_iff:
  "has_auth d = (property_ok d ''auth'' auth_schema \<and> map_of d ''auth'' \<noteq> None)"
  by (cases "map_of d ''auth''") (simp_all add: has_auth_def property_ok_def validates_auth)

lemmas shape_iffs = has_string_iff may_have_string_iff may_have_boolean_iff
  has_container_type_iff has_auth_iff

lemma send_shape_validates: "validates http_send_schema j = send_shape j"
proof (cases j)
  case (JObj d)
  show ?thesis
    unfolding JObj http_send_schema_def send_shape_def validates_object
    by (simp add: shape_iffs) blast
qed (simp_all add: http_send_schema_def send_shape_def)


lemma receive_shape_validates:
  "validates http_receive_schema j = (container_qualified_shape j \<noteq> container_less_shape j)"
proof (cases j)
  case (JObj d)
  show ?thesis
    unfolding JObj http_receive_schema_def container_qualified_shape_def
      container_less_shape_def validates.simps(5)
    by (simp add: validates_object shape_iffs del: validates.simps not_None_eq) blast
qed (simp_all add: http_receive_schema_def container_qualified_shape_def
       container_less_shape_def)

lemma only_keys_present: "only_keys ks d \<Longrightarrow> map_of d k = Some v \<Longrightarrow> k \<in> set ks"
  by (auto simp: only_keys_def dest!: map_of_SomeD)

lemma shapes_exclusive: "\<not> (container_qualified_shape j \<and> container_less_shape j)"
proof (cases j)
  case (JObj d)
  show ?thesis
  proof
    assume both: "container_qualified_shape j \<and> container_less_shape j"
    then have "has_container_type d"
      and keys: "only_keys [''baseUrl'', ''project'', ''subject'', ''session'', ''resource'',
                            ''file'', ''auth'', ''disableSSLVerification''] d"
      by (simp_all add: JObj container_qualified_shape_def container_less_shape_def)
    then obtain v where "map_of d ''containerType'' = Some v"
      by (auto simp: has_container_type_def split: option.splits)
    from only_keys_present[OF keys this] show False by simp
  qed
qed (simp_all add: container_qualified_shape_def)

lemma has_stringD:
  "has_string d k \<Longrightarrow> map_of d k = Some (JStr (str_field d k))"
  by (auto simp: has_string_def str_field_def split: option.splits json.splits)

lemma has_container_typeD:
  "has_container_type d \<Longrightarrow>
     map_of d ''containerType'' = Some (JStr (str_field d ''containerType''))
     \<and> str_field d ''containerType'' \<noteq> []"
  by (auto simp: has_container_type_def str_field_def split: option.splits json.splits)

lemma has_authD:
  "has_auth d \<Longrightarrow> \<exists>cred. auth_method_obj_of d = Inr (Some cred)"
proof -
  assume "has_auth d"
  then obtain au where au: "map_of d ''auth'' = Some (JObj au)"
    "has_string au ''username''" "has_string au ''password''"
    by (auto simp: has_auth_def split: option.splits json.splits)
  from auth_method_obj_of_basic[OF au(1) has_stringD[OF au(2)] has_stringD[OF au(3)]]
  show ?thesis by blast
qed

lemma only_keys_absent: "only_keys ks d \<Longrightarrow> k \<notin> set ks \<Longrightarrow> map_of d k = None"
  by (cases "map_of d k") (auto dest: only_keys_present)

lemma receive_starts_with_get:
  "receive_vars_of access = Inr v \<Longrightarrow>
     \<exists>rep rest. new_events w (snd (receive e access internal w)) = Http (receive_get v) rep # rest"
proof -
  assume vars: "receive_vars_of access = Inr v"
  have "holds_after (receive e access internal) w
          (\<lambda>res w'. \<exists>rep rest. new_events w w' = Http (receive_get v) rep # rest)"
    unfolding receive_def using vars
    by (simp add: after_rules Let_def new_events_def trace_write_chunks)
  then show ?thesis by (simp add: holds_after_def split: prod.splits)
qed

section \<open>The claims\<close>

text \<open>
  Claim C1. A send request finds the container: the server lists a container whose
  \<open>ID\<close> is \<open>container\<close>, \<open>upsert\<close> is true, the server lists a resource of that
  container whose \<open>label\<close> is \<open>resource\<close> and a file of that resource whose \<open>Name\<close>
  is \<open>file\<close>. Then the calls of \<open>Http.send\<close> that are not a \<open>GET\<close> are, in this
  order: the \<open>DELETE\<close> of the file URL, the \<open>DELETE\<close> of the container URL, the
  \<open>PUT\<close> of the container URL with the query \<open>?xsiType={xsiType}\<close> and no body, the
  \<open>PUT\<close> of the file URL with the query \<open>?inbody=true\<close> and the content of the local
  file as body, and the \<open>DELETE\<close> of \<open>{base}/data/JSESSION\<close>; each carries the
  cookies of the first response and no credentials. A run that fails on the way has
  issued a prefix of this sequence, a run that returns has issued all of it, and the run
  returns when the server answers every call that is not a \<open>GET\<close> with a success and
  the local file can be read.
\<close>

theorem send_replaces_container:
  assumes vars: "send_vars_of access = Inr v"
      and flag: "map_of access ''upsert'' = Some (JBool True)"
      and l1: "answers e (trace w) (list_containers v) r1 ''ID'' (container v) True"
      and l2: "answers e (trace w @ [Http (list_containers v) (Response r1)])
                 (list_resources v (resp_cookies r1)) r2 ''label'' (resource v) True"
      and l3: "answers e (trace w @ [Http (list_containers v) (Response r1),
                                     Http (list_resources v (resp_cookies r1)) (Response r2)])
                 (list_files v (resp_cookies r1)) r3 ''Name'' (file_name v) True"
      and run: "send e access internal w = (res, w')"
  shows
    "let container_url =
           base_url v @ ''/REST/projects/'' @ project v @ ''/subjects/'' @ subject v
             @ ''/experiments/'' @ session v @ ''/'' @ container_type v @ ''/'' @ container v;
         file_url = container_url @ ''/resources/'' @ resource v @ ''/files/'' @ file_name v;
         call = (\<lambda>m u d. \<lparr>rq_method = m, rq_url = u, rq_auth = None,
                              rq_cookies = Some (resp_cookies r1), rq_verify = verify v,
                              rq_stream = False, rq_data = d\<rparr>);
         expected =
           [call DELETE file_url None,
            call DELETE container_url None,
            call PUT (container_url @ ''?xsiType='' @ xsi_type v) None,
            call PUT (file_url @ ''?inbody=true'') (Some (local_file internal w)),
            call DELETE (base_url v @ ''/data/JSESSION'') None]
     in prefix (filter mutating (calls_of (new_events w w'))) expected
      \<and> (res = Inr () \<longrightarrow> filter mutating (calls_of (new_events w w')) = expected)
      \<and> ((\<forall>h q. mutating q \<longrightarrow> (\<exists>r. server e h q = Response r \<and> ok r))
          \<and> (\<exists>path content. ebind (getitem internal ''path'') as_str = Inr path
                              \<and> files w path = Some content)
          \<longrightarrow> res = Inr ())"
proof -
  let ?c = "resp_cookies r1"
  let ?calls = "[delete_file v ?c, delete_container v ?c, create_container v ?c,
                 create_file v ?c (local_file internal w),
                 delete_session (base_url v) (verify v) ?c]"
  have up: "truthy (upsert v)"
    using flag send_vars_of_upsert[OF vars] by (simp add: dict_get_def)
  from answersD[OF l1] obtain x1 where
    a1: "server e (trace w) (list_containers v) = Response r1" "ok r1"
        "result_of r1 = Inr x1" "listed ''ID'' (container v) x1 = Inr True"
    by blast
  from answersD[OF l2] obtain x2 where
    a2: "server e (trace w @ [Http (list_containers v) (Response r1)])
           (list_resources v ?c) = Response r2" "ok r2"
        "result_of r2 = Inr x2" "listed ''label'' (resource v) x2 = Inr True"
    by blast
  from answersD[OF l3] obtain x3 where
    a3: "server e (trace w @ [Http (list_containers v) (Response r1),
                              Http (list_resources v ?c) (Response r2)])
           (list_files v ?c) = Response r3" "ok r3"
        "result_of r3 = Inr x3" "listed ''Name'' (file_name v) x3 = Inr True"
    by blast
  have "holds_after (send e access internal) w (\<lambda>res w'.
          prefix (filter mutating (calls_of (new_events w w'))) ?calls
          \<and> (res = Inr () \<longrightarrow> filter mutating (calls_of (new_events w w')) = ?calls))"
    unfolding send_def using vars up a1 a2 a3
    by (simp add: after_rules Let_def mutating_def local_file_def)
  from holds_afterD[OF this run]
  have order: "prefix (filter mutating (calls_of (new_events w w'))) ?calls"
    and full: "res = Inr () \<longrightarrow> filter mutating (calls_of (new_events w w')) = ?calls"
    by simp_all
  have completes: "res = Inr ()"
    if accepted: "\<forall>h q. mutating q \<longrightarrow> (\<exists>r. server e h q = Response r \<and> ok r)"
    and path: "ebind (getitem internal ''path'') as_str = Inr path"
    and content: "files w path = Some content" for path content
  proof -
    have reply: "\<exists>r. server e h q = Response r \<and> ok r" if "rq_method q \<noteq> GET" for h q
      using accepted that by (simp add: mutating_def)
    let ?h3 = "[Http (list_containers v) (Response r1),
                Http (list_resources v ?c) (Response r2),
                Http (list_files v ?c) (Response r3)]"
    obtain r4 where r4: "server e (trace w @ ?h3) (delete_file v ?c) = Response r4" "ok r4"
      using reply[of "delete_file v ?c"] by auto
    obtain r5 where r5: "server e (trace w @ ?h3 @ [Http (delete_file v ?c) (Response r4)])
                           (delete_container v ?c) = Response r5" "ok r5"
      using reply[of "delete_container v ?c"] by auto
    obtain r6 where r6: "server e (trace w @ ?h3 @ [Http (delete_file v ?c) (Response r4),
                                     Http (delete_container v ?c) (Response r5)])
                           (create_container v ?c) = Response r6" "ok r6"
      using reply[of "create_container v ?c"] by auto
    obtain r7 where r7: "server e (trace w @ ?h3 @ [Http (delete_file v ?c) (Response r4),
                                     Http (delete_container v ?c) (Response r5),
                                     Http (create_container v ?c) (Response r6),
                                     Open path ''rb''])
                           (create_file v ?c content) = Response r7" "ok r7"
      using reply[of "create_file v ?c content"] by auto
    obtain r8 where r8: "server e (trace w @ ?h3 @ [Http (delete_file v ?c) (Response r4),
                                     Http (delete_container v ?c) (Response r5),
                                     Http (create_container v ?c) (Response r6),
                                     Open path ''rb'',
                                     Http (create_file v ?c content) (Response r7)])
                           (delete_session (base_url v) (verify v) ?c) = Response r8" "ok r8"
      using reply[of "delete_session (base_url v) (verify v) ?c"] by auto
    have "fst (send e access internal w) = Inr ()"
      using vars up a1 a2 a3 r4 r5 r6 r7 r8 path content
      by (simp add: send_def io_defs Let_def open_rb_def)
    with run show ?thesis by simp
  qed
  show ?thesis
    unfolding Let_def
    using order full completes
    by (auto simp: delete_file_def delete_container_def create_container_def create_file_def
          delete_session_def)
qed


theorem send_replaces_container_witness:
  "send_vars_of demo_send_access = Inr demo_send_vars
   \<and> map_of demo_send_access ''upsert'' = Some (JBool True)
   \<and> fst (send demo_env demo_send_access demo_internal demo_world) = Inr ()
   \<and> filter mutating (calls_of (new_events demo_world
        (snd (send demo_env demo_send_access demo_internal demo_world))))
     = [\<lparr>rq_method = DELETE,
         rq_url = ''h://x/REST/projects/P/subjects/S/experiments/E/scans/SCAN1/resources/DICOM/files/a.dcm'',
         rq_auth = None, rq_cookies = Some [(''JSESSIONID'', ''c1'')], rq_verify = True,
         rq_stream = False, rq_data = None\<rparr>,
        \<lparr>rq_method = DELETE,
         rq_url = ''h://x/REST/projects/P/subjects/S/experiments/E/scans/SCAN1'',
         rq_auth = None, rq_cookies = Some [(''JSESSIONID'', ''c1'')], rq_verify = True,
         rq_stream = False, rq_data = None\<rparr>,
        \<lparr>rq_method = PUT,
         rq_url = ''h://x/REST/projects/P/subjects/S/experiments/E/scans/SCAN1?xsiType=mr'',
         rq_auth = None, rq_cookies = Some [(''JSESSIONID'', ''c1'')], rq_verify = True,
         rq_stream = False, rq_data = None\<rparr>,
        \<lparr>rq_method = PUT,
         rq_url = ''h://x/REST/projects/P/subjects/S/experiments/E/scans/SCAN1/resources/DICOM/files/a.dcm?inbody=true'',
         rq_auth = None, rq_cookies = Some [(''JSESSIONID'', ''c1'')], rq_verify = True,
         rq_stream = False, rq_data = Some ''DICM''\<rparr>,
        \<lparr>rq_method = DELETE, rq_url = ''h://x/data/JSESSION'',
         rq_auth = None, rq_cookies = Some [(''JSESSIONID'', ''c1'')], rq_verify = True,
         rq_stream = False, rq_data = None\<rparr>]"
proof -
  have flag: "map_of demo_send_access ''upsert'' = Some (JBool True)"
    by (simp add: demo_send_access_def)
  have l1: "answers demo_env (trace demo_world) (list_containers demo_send_vars)
              (demo_listing ''ID'' ''SCAN1'') ''ID'' (container demo_send_vars) True"
    by (simp add: answers_def demo_env_def demo_server_def demo_world_def ebind_def)
  have l2: "answers demo_env
              (trace demo_world @ [Http (list_containers demo_send_vars)
                                        (Response (demo_listing ''ID'' ''SCAN1''))])
              (list_resources demo_send_vars (resp_cookies (demo_listing ''ID'' ''SCAN1'')))
              (demo_listing ''label'' ''DICOM'') ''label'' (resource demo_send_vars) True"
    by (simp add: answers_def demo_env_def demo_server_def demo_world_def ebind_def)
  have l3: "answers demo_env
              (trace demo_world @ [Http (list_containers demo_send_vars)
                                        (Response (demo_listing ''ID'' ''SCAN1'')),
                                   Http (list_resources demo_send_vars
                                           (resp_cookies (demo_listing ''ID'' ''SCAN1'')))
                                        (Response (demo_listing ''label'' ''DICOM''))])
              (list_files demo_send_vars (resp_cookies (demo_listing ''ID'' ''SCAN1'')))
              (demo_listing ''Name'' ''a.dcm'') ''Name'' (file_name demo_send_vars) True"
    by (simp add: answers_def demo_env_def demo_server_def demo_world_def ebind_def)
  have accepted: "\<forall>h q. mutating q \<longrightarrow> (\<exists>r. server demo_env h q = Response r \<and> ok r)"
    by (simp add: demo_env_def demo_server_def mutating_def)
  have readable: "\<exists>path content. ebind (getitem demo_internal ''path'') as_str = Inr path
                                   \<and> files demo_world path = Some content"
    by (simp add: demo_internal_def demo_world_def lookup_defs as_str_def)
  have v: "project demo_send_vars = ''P''" "subject demo_send_vars = ''S''"
    "session demo_send_vars = ''E''" "container_type demo_send_vars = ''scans''"
    "xsi_type demo_send_vars = ''mr''"
    by (simp_all add: demo_send_vars_def)
  from send_replaces_container[OF demo_send_vars_of flag l1 l2 l3 surjective_pairing]
       accepted readable
  show ?thesis
    by (simp add: demo_send_vars_of flag Let_def v demo_cookies_def)
qed

text \<open>
  Claim C2. A send request finds the container (the server lists a container whose
  \<open>ID\<close> is \<open>container\<close>) and \<open>upsert\<close> is false or absent. Then \<open>Http.send\<close> raises
  the exception with the message "Container ... already exists and upsert is not set."
  (the conflict error), the listing of the containers is the only call it has issued
  (so no call that is not a \<open>GET\<close>, and none that invalidates the session), and no
  local file is touched.
\<close>

theorem send_conflict:
  assumes vars: "send_vars_of access = Inr v"
      and listing: "answers e (trace w) (list_containers v) r ''ID'' (container v) True"
      and flag: "map_of access ''upsert'' = None \<or> map_of access ''upsert'' = Some (JBool False)"
  shows "fst (send e access internal w)
           = Inl (PyException (''Container '' @ container v
                               @ '' already exists and upsert is not set.''))
       \<and> new_events w (snd (send e access internal w))
           = [Http (list_containers v) (Response r)]
       \<and> filter mutating (calls_of (new_events w (snd (send e access internal w)))) = []
       \<and> files (snd (send e access internal w)) = files w"
proof -
  have falsy: "\<not> truthy (upsert v)"
    using flag send_vars_of_upsert[OF vars] by (auto simp: dict_get_def)
  from answersD[OF listing] obtain existing where
    reply: "server e (trace w) (list_containers v) = Response r" and "ok r"
    and res: "result_of r = Inr existing"
    and found: "listed ''ID'' (container v) existing = Inr True"
    by blast
  have run: "send e access internal w
      = (Inl (PyException (''Container '' @ container v
                           @ '' already exists and upsert is not set.'')),
         w\<lparr>trace := trace w @ [Http (list_containers v) (Response r)]\<rparr>)"
    using vars reply \<open>ok r\<close> res found falsy
    by (simp add: send_def io_defs Let_def)
  show ?thesis
    by (simp add: run mutating_def)
qed

theorem send_conflict_witness:
  "map_of (AList.update ''upsert'' (JBool False) demo_send_access) ''upsert''
     = Some (JBool False)
   \<and> fst (send demo_env (AList.update ''upsert'' (JBool False) demo_send_access)
             demo_internal demo_world)
     = Inl (PyException ''Container SCAN1 already exists and upsert is not set.'')
   \<and> calls_of (new_events demo_world
        (snd (send demo_env (AList.update ''upsert'' (JBool False) demo_send_access)
                demo_internal demo_world)))
     = [list_containers demo_send_vars]"
proof -
  let ?access = "AList.update ''upsert'' (JBool False) demo_send_access"
  have vars: "send_vars_of ?access = Inr (demo_send_vars\<lparr>upsert := JBool False\<rparr>)"
    by (rule send_vars_of_set_upsert(1)[OF demo_send_vars_of])
  have flag: "map_of ?access ''upsert'' = Some (JBool False)"
    by (simp add: update_conv')
  have listing: "answers demo_env (trace demo_world)
                   (list_containers (demo_send_vars\<lparr>upsert := JBool False\<rparr>))
                   (demo_listing ''ID'' ''SCAN1'') ''ID''
                   (container (demo_send_vars\<lparr>upsert := JBool False\<rparr>)) True"
    by (simp add: answers_def demo_env_def demo_server_def demo_world_def ebind_def)
  from send_conflict[OF vars listing disjI2[OF flag], of demo_internal] flag
  show ?thesis by simp
qed

text \<open>
  Claim C3. A send request does not find the container: the server lists no container
  whose \<open>ID\<close> is \<open>container\<close>. Then the calls of \<open>Http.send\<close> that are not a \<open>GET\<close>
  are, in this order: the \<open>PUT\<close> of the container URL with the query
  \<open>?xsiType={xsiType}\<close> and no body, the \<open>PUT\<close> of the file URL with the query
  \<open>?inbody=true\<close> and the content of the local file as body, and the \<open>DELETE\<close> of
  \<open>{base}/data/JSESSION\<close>. The calls that change the remote hierarchy are so exactly
  two, create the container and then create the file, and no \<open>DELETE\<close> is issued on
  the hierarchy (the \<open>DELETE\<close> of the session is the only one). A run that fails on the
  way has issued a prefix of the sequence, a run that returns has issued all of it, and
  the run returns when the server answers every call that is not a \<open>GET\<close> with a
  success and the local file can be read.
\<close>

theorem send_creates_container:
  assumes vars: "send_vars_of access = Inr v"
      and listing: "answers e (trace w) (list_containers v) r ''ID'' (container v) False"
      and run: "send e access internal w = (res, w')"
  shows
    "let container_url =
           base_url v @ ''/REST/projects/'' @ project v @ ''/subjects/'' @ subject v
             @ ''/experiments/'' @ session v @ ''/'' @ container_type v @ ''/'' @ container v;
         file_url = container_url @ ''/resources/'' @ resource v @ ''/files/'' @ file_name v;
         call = (\<lambda>m u d. \<lparr>rq_method = m, rq_url = u, rq_auth = None,
                              rq_cookies = Some (resp_cookies r), rq_verify = verify v,
                              rq_stream = False, rq_data = d\<rparr>);
         create_the_container = call PUT (container_url @ ''?xsiType='' @ xsi_type v) None;
         create_the_file = call PUT (file_url @ ''?inbody=true'') (Some (local_file internal w));
         close_the_session = call DELETE (base_url v @ ''/data/JSESSION'') None
     in prefix (filter mutating (calls_of (new_events w w')))
               [create_the_container, create_the_file, close_the_session]
      \<and> (res = Inr () \<longrightarrow>
            filter mutating (calls_of (new_events w w'))
              = [create_the_container, create_the_file, close_the_session]
          \<and> filter (\<lambda>q. mutating q \<and> \<not> closes_session v q) (calls_of (new_events w w'))
              = [create_the_container, create_the_file])
      \<and> filter (\<lambda>q. rq_method q = DELETE \<and> \<not> closes_session v q)
            (calls_of (new_events w w')) = []
      \<and> ((\<forall>h q. mutating q \<longrightarrow> (\<exists>r. server e h q = Response r \<and> ok r))
          \<and> (\<exists>path content. ebind (getitem internal ''path'') as_str = Inr path
                              \<and> files w path = Some content)
          \<longrightarrow> res = Inr ())"
proof -
  let ?c = "resp_cookies r"
  from answersD[OF listing] obtain existing where
    a: "server e (trace w) (list_containers v) = Response r" "ok r"
       "result_of r = Inr existing" "listed ''ID'' (container v) existing = Inr False"
    by blast
  have "holds_after (send e access internal) w (\<lambda>res w'.
          prefix (filter mutating (calls_of (new_events w w')))
            [create_container v ?c, create_file v ?c (local_file internal w),
             delete_session (base_url v) (verify v) ?c]
        \<and> (res = Inr () \<longrightarrow>
              filter mutating (calls_of (new_events w w'))
              = [create_container v ?c, create_file v ?c (local_file internal w),
                 delete_session (base_url v) (verify v) ?c]
            \<and> filter (\<lambda>q. mutating q \<and> \<not> closes_session v q) (calls_of (new_events w w'))
              = [create_container v ?c, create_file v ?c (local_file internal w)])
        \<and> filter (\<lambda>q. rq_method q = DELETE \<and> \<not> closes_session v q)
              (calls_of (new_events w w')) = [])"
    unfolding send_def using vars a
    by (simp add: after_rules Let_def mutating_def local_file_def)
  note calls = holds_afterD[OF this run]
  have completes: "res = Inr ()"
    if accepted: "\<forall>h q. mutating q \<longrightarrow> (\<exists>r. server e h q = Response r \<and> ok r)"
    and path: "ebind (getitem internal ''path'') as_str = Inr path"
    and content: "files w path = Some content" for path content
  proof -
    have reply: "\<exists>r. server e h q = Response r \<and> ok r" if "rq_method q \<noteq> GET" for h q
      using accepted that by (simp add: mutating_def)
    obtain r2 where r2: "server e (trace w @ [Http (list_containers v) (Response r)])
                           (create_container v ?c) = Response r2" "ok r2"
      using reply[of "create_container v ?c"] by auto
    obtain r3 where r3: "server e (trace w @ [Http (list_containers v) (Response r),
                                     Http (create_container v ?c) (Response r2),
                                     Open path ''rb''])
                           (create_file v ?c content) = Response r3" "ok r3"
      using reply[of "create_file v ?c content"] by auto
    obtain r4 where r4: "server e (trace w @ [Http (list_containers v) (Response r),
                                     Http (create_container v ?c) (Response r2),
                                     Open path ''rb'',
                                     Http (create_file v ?c content) (Response r3)])
                           (delete_session (base_url v) (verify v) ?c) = Response r4" "ok r4"
      using reply[of "delete_session (base_url v) (verify v) ?c"] by auto
    have "fst (send e access internal w) = Inr ()"
      using vars a r2 r3 r4 path content
      by (simp add: send_def io_defs Let_def open_rb_def)
    with run show ?thesis by simp
  qed
  show ?thesis
    unfolding Let_def
    using calls completes
    by (auto simp: create_container_def create_file_def delete_session_def)
qed

theorem send_creates_container_witness:
  "send_vars_of demo_send_access = Inr demo_send_vars
   \<and> fst (send demo_env_empty demo_send_access demo_internal demo_world) = Inr ()
   \<and> filter (\<lambda>q. mutating q \<and> \<not> closes_session demo_send_vars q)
        (calls_of (new_events demo_world
           (snd (send demo_env_empty demo_send_access demo_internal demo_world))))
     = [\<lparr>rq_method = PUT,
         rq_url = ''h://x/REST/projects/P/subjects/S/experiments/E/scans/SCAN1?xsiType=mr'',
         rq_auth = None, rq_cookies = Some [(''JSESSIONID'', ''c1'')], rq_verify = True,
         rq_stream = False, rq_data = None\<rparr>,
        \<lparr>rq_method = PUT,
         rq_url = ''h://x/REST/projects/P/subjects/S/experiments/E/scans/SCAN1/resources/DICOM/files/a.dcm?inbody=true'',
         rq_auth = None, rq_cookies = Some [(''JSESSIONID'', ''c1'')], rq_verify = True,
         rq_stream = False, rq_data = Some ''DICM''\<rparr>]
   \<and> filter (\<lambda>q. rq_method q = DELETE) (calls_of (new_events demo_world
           (snd (send demo_env_empty demo_send_access demo_internal demo_world))))
     = [\<lparr>rq_method = DELETE, rq_url = ''h://x/data/JSESSION'',
         rq_auth = None, rq_cookies = Some [(''JSESSIONID'', ''c1'')], rq_verify = True,
         rq_stream = False, rq_data = None\<rparr>]"
proof -
  have listing: "answers demo_env_empty (trace demo_world) (list_containers demo_send_vars)
                   demo_empty ''ID'' (container demo_send_vars) False"
    by (simp add: answers_def demo_env_empty_def ebind_def)
  have accepted: "\<forall>h q. mutating q \<longrightarrow> (\<exists>r. server demo_env_empty h q = Response r \<and> ok r)"
    by (simp add: demo_env_empty_def)
  have readable: "\<exists>path content. ebind (getitem demo_internal ''path'') as_str = Inr path
                                   \<and> files demo_world path = Some content"
    by (simp add: demo_internal_def demo_world_def lookup_defs as_str_def)
  have v: "project demo_send_vars = ''P''" "subject demo_send_vars = ''S''"
    "session demo_send_vars = ''E''" "container_type demo_send_vars = ''scans''"
    "xsi_type demo_send_vars = ''mr''"
    by (simp_all add: demo_send_vars_def)
  have deletes: "filter (\<lambda>q. rq_method q = DELETE) (calls_of (new_events demo_world
           (snd (send demo_env_empty demo_send_access demo_internal demo_world))))
     = [\<lparr>rq_method = DELETE, rq_url = ''h://x/data/JSESSION'',
         rq_auth = None, rq_cookies = Some [(''JSESSIONID'', ''c1'')], rq_verify = True,
         rq_stream = False, rq_data = None\<rparr>]"
    unfolding demo_send_empty_run
    by (simp add: new_events_def demo_world_def delete_session_def demo_cookies_def)
  from send_creates_container[OF demo_send_vars_of listing surjective_pairing]
       accepted readable deletes
  show ?thesis
    by (simp add: demo_send_vars_of Let_def v demo_cookies_def)
qed

text \<open>
  Claim C4 as stated does not hold: only the first call of an operation is given the
  basic-auth credentials. In the sample run of \<open>Http.receive\<close> the \<open>DELETE\<close> of the
  session carries none, and in the sample run of \<open>Http.send\<close> the seven calls after
  the listing of the containers carry none.
\<close>

theorem basic_auth_on_every_call_counterexample:
  "map rq_auth (calls_of (trace (snd
      (receive demo_env_file demo_receive_access demo_internal demo_world))))
     = [Some (HTTPBasicAuth (JStr ''u'') (JStr ''pw'')), None]
   \<and> map rq_auth (calls_of (trace (snd
      (send demo_env demo_send_access demo_internal demo_world))))
     = [Some (HTTPBasicAuth (JStr ''u'') (JStr ''pw'')),
        None, None, None, None, None, None, None]"
  by (simp add: demo_receive_run demo_send_run)

text \<open>
  Claim C4, amended. When the access description has an \<open>auth\<close> object with a
  \<open>username\<close> and a \<open>password\<close>, the first HTTP call of \<open>Http.send\<close> and of
  \<open>Http.receive\<close> carries the basic-auth credentials built from them (and no cookies);
  every later call of the operation carries no credentials and carries the cookies of
  the first response.
\<close>

theorem credentials_sent_once:
  assumes auth: "map_of access ''auth'' = Some (JObj au)"
      and user: "map_of au ''username'' = Some u"
      and pass: "map_of au ''password'' = Some p"
  shows "(send e access internal w = (res, w') \<longrightarrow>
            authenticated_once (HTTPBasicAuth u p) (new_events w w'))
       \<and> (receive e access internal w = (res, w') \<longrightarrow>
            authenticated_once (HTTPBasicAuth u p) (new_events w w'))"
proof -
  note basic = auth_method_obj_of_basic[OF auth user pass]
  have s: "send_vars_of access = Inr v \<Longrightarrow> auth_method_obj v = Some (HTTPBasicAuth u p)"
    for v
    using send_vars_of_auth[of access v] basic by simp
  have r: "receive_vars_of access = Inr v \<Longrightarrow> r_auth_method_obj v = Some (HTTPBasicAuth u p)"
    for v
    using receive_vars_of_auth[of access v] basic by simp
  have "holds_after (send e access internal) w
          (\<lambda>res w'. authenticated_once (HTTPBasicAuth u p) (new_events w w'))"
    unfolding send_def
    by (simp add: after_rules Let_def authenticated_once_def s)
  moreover have "holds_after (receive e access internal) w
          (\<lambda>res w'. authenticated_once (HTTPBasicAuth u p) (new_events w w'))"
    unfolding receive_def
    by (simp add: after_rules Let_def authenticated_once_def r new_events_def
                  trace_write_chunks)
  ultimately show ?thesis by (auto dest: holds_afterD)
qed

theorem credentials_sent_once_witness:
  "map_of demo_receive_access ''auth''
     = Some (JObj [(''username'', JStr ''u''), (''password'', JStr ''pw'')])
   \<and> authenticated_once (HTTPBasicAuth (JStr ''u'') (JStr ''pw''))
       (new_events demo_world
          (snd (receive demo_env_file demo_receive_access demo_internal demo_world)))"
proof -
  have auth: "map_of demo_receive_access ''auth''
                = Some (JObj [(''username'', JStr ''u''), (''password'', JStr ''pw'')])"
    by (simp add: demo_receive_access_def demo_auth_def)
  have user: "map_of [(''username'', JStr ''u''), (''password'', JStr ''pw'')] ''username''
                = Some (JStr ''u'')"
    by simp
  have pass: "map_of [(''username'', JStr ''u''), (''password'', JStr ''pw'')] ''password''
                = Some (JStr ''pw'')"
    by simp
  from credentials_sent_once[OF auth user pass, of demo_env_file demo_internal demo_world
         "Inr ()" "snd (receive demo_env_file demo_receive_access demo_internal demo_world)"]
  have "authenticated_once (HTTPBasicAuth (JStr ''u'') (JStr ''pw''))
          (new_events demo_world
             (snd (receive demo_env_file demo_receive_access demo_internal demo_world)))"
    by (simp add: demo_receive_run)
  with auth show ?thesis by simp
qed

text \<open>
  Claim C5. For every receive descriptor the schema accepts, \<open>Http.receive\<close> computes
  its variables without an error and requests exactly one URL, of the shape that matches
  the presence of \<open>containerType\<close>: the container-qualified shape
  \<open>.../experiments/{session}/{containerType}/{container}/resources/{resource}/files/{file}\<close>
  when \<open>containerType\<close> is present, the container-less shape
  \<open>.../experiments/{session}/resources/{resource}/files/{file}\<close> otherwise. The first
  event of the run is the \<open>GET\<close> of this URL.
\<close>

theorem receive_url_shape:
  assumes valid: "receive_validate (JObj access) = Inr ()"
  shows "\<exists>v. receive_vars_of access = Inr v
     \<and> r_url v =
         (if map_of access ''containerType'' = None
          then rstrip ''/'' (str_field access ''baseUrl'')
                 @ ''/REST/projects/'' @ str_field access ''project''
                 @ ''/subjects/'' @ str_field access ''subject''
                 @ ''/experiments/'' @ str_field access ''session''
                 @ ''/resources/'' @ str_field access ''resource''
                 @ ''/files/'' @ str_field access ''file''
          else rstrip ''/'' (str_field access ''baseUrl'')
                 @ ''/REST/projects/'' @ str_field access ''project''
                 @ ''/subjects/'' @ str_field access ''subject''
                 @ ''/experiments/'' @ str_field access ''session''
                 @ ''/'' @ str_field access ''containerType''
                 @ ''/'' @ str_field access ''container''
                 @ ''/resources/'' @ str_field access ''resource''
                 @ ''/files/'' @ str_field access ''file'')
     \<and> rq_url (receive_get v) = r_url v
     \<and> (\<exists>rep rest. new_events w (snd (receive e access internal w))
                      = Http (receive_get v) rep # rest)"
proof -
  from valid have "validates http_receive_schema (JObj access)"
    by (simp add: receive_validate_def jsonschema_validate_def split: if_splits)
  then have shape: "container_qualified_shape (JObj access) \<or> container_less_shape (JObj access)"
    by (auto simp: receive_shape_validates)
  have get: "rq_url (receive_get v) = r_url v" for v
    by (simp add: receive_get_def)
  from shape show ?thesis
  proof
    assume "container_qualified_shape (JObj access)"
    then have s: "has_string access ''baseUrl''" "has_string access ''project''"
      "has_string access ''subject''" "has_string access ''session''"
      "has_container_type access" "has_string access ''container''"
      "has_string access ''resource''" "has_string access ''file''" "has_auth access"
      by (simp_all add: container_qualified_shape_def)
    from has_authD[OF s(9)] obtain cred where auth: "auth_method_obj_of access = Inr (Some cred)"
      by blast
    note f = has_stringD[OF s(1)] has_stringD[OF s(2)] has_stringD[OF s(3)] has_stringD[OF s(4)]
      has_container_typeD[OF s(5)] has_stringD[OF s(6)] has_stringD[OF s(7)] has_stringD[OF s(8)]
    have "\<exists>v. receive_vars_of access = Inr v \<and> r_url v =
        rstrip ''/'' (str_field access ''baseUrl'')
                 @ ''/REST/projects/'' @ str_field access ''project''
                 @ ''/subjects/'' @ str_field access ''subject''
                 @ ''/experiments/'' @ str_field access ''session''
                 @ ''/'' @ str_field access ''containerType''
                 @ ''/'' @ str_field access ''container''
                 @ ''/resources/'' @ str_field access ''resource''
                 @ ''/files/'' @ str_field access ''file''"
      using f auth
      by (simp add: receive_vars_of_def lookup_defs rstrip_slash_def as_str_def as_opt_str_def
            py_str_def Let_def)
    then show ?thesis using f(5) get receive_starts_with_get by fastforce
  next
    assume c: "container_less_shape (JObj access)"
    then have s: "has_string access ''baseUrl''" "has_string access ''project''"
      "has_string access ''subject''" "has_string access ''session''"
      "has_string access ''resource''" "has_string access ''file''" "has_auth access"
      and keys: "only_keys [''baseUrl'', ''project'', ''subject'', ''session'', ''resource'',
                            ''file'', ''auth'', ''disableSSLVerification''] access"
      by (simp_all add: container_less_shape_def)
    from has_authD[OF s(7)] obtain cred where auth: "auth_method_obj_of access = Inr (Some cred)"
      by blast
    have none: "map_of access ''containerType'' = None" "map_of access ''container'' = None"
      by (rule only_keys_absent[OF keys], simp)+
    note f = has_stringD[OF s(1)] has_stringD[OF s(2)] has_stringD[OF s(3)] has_stringD[OF s(4)]
      has_stringD[OF s(5)] has_stringD[OF s(6)]
    have "\<exists>v. receive_vars_of access = Inr v \<and> r_url v =
        rstrip ''/'' (str_field access ''baseUrl'')
                 @ ''/REST/projects/'' @ str_field access ''project''
                 @ ''/subjects/'' @ str_field access ''subject''
                 @ ''/experiments/'' @ str_field access ''session''
                 @ ''/resources/'' @ str_field access ''resource''
                 @ ''/files/'' @ str_field access ''file''"
      using f auth none
      by (simp add: receive_vars_of_def lookup_defs rstrip_slash_def as_str_def as_opt_str_def
            py_str_def Let_def)
    then show ?thesis using none get receive_starts_with_get by fastforce
  qed
qed

theorem receive_url_shape_witness:
  "receive_validate (JObj demo_receive_access) = Inr ()
   \<and> receive_validate (JObj demo_receive_plain) = Inr ()
   \<and> (\<exists>v. receive_vars_of demo_receive_access = Inr v
          \<and> r_url v = ''h://x/REST/projects/P/subjects/S/experiments/E/scans/SCAN1/resources/DICOM/files/a.dcm'')
   \<and> (\<exists>v. receive_vars_of demo_receive_plain = Inr v
          \<and> r_url v = ''h://x/REST/projects/P/subjects/S/experiments/E/resources/DICOM/files/a.dcm'')"
proof -
  have valid_q: "receive_validate (JObj demo_receive_access) = Inr ()"
    by (simp add: receive_validate_def jsonschema_validate_def receive_shape_validates
          container_qualified_shape_def container_less_shape_def demo_receive_access_def
          has_string_def has_auth_def may_have_boolean_def has_container_type_def
          only_keys_def demo_auth_def)
  have valid_p: "receive_validate (JObj demo_receive_plain) = Inr ()"
    by (simp add: receive_validate_def jsonschema_validate_def receive_shape_validates
          container_qualified_shape_def container_less_shape_def demo_receive_plain_def
          has_string_def has_auth_def may_have_boolean_def has_container_type_def
          only_keys_def demo_auth_def)
  from receive_url_shape[OF valid_q, where e = demo_env_file and internal = demo_internal
         and w = demo_world]
  have q: "\<exists>v. receive_vars_of demo_receive_access = Inr v
          \<and> r_url v = ''h://x/REST/projects/P/subjects/S/experiments/E/scans/SCAN1/resources/DICOM/files/a.dcm''"
    by (auto simp: str_field_def demo_receive_access_def rstrip_def)
  from receive_url_shape[OF valid_p, where e = demo_env_file and internal = demo_internal
         and w = demo_world]
  have c: "\<exists>v. receive_vars_of demo_receive_plain = Inr v
          \<and> r_url v = ''h://x/REST/projects/P/subjects/S/experiments/E/resources/DICOM/files/a.dcm''"
    by (auto simp: str_field_def demo_receive_plain_def rstrip_def)
  from valid_q valid_p q c show ?thesis by blast
qed

text \<open>
  Claim C6. URL construction is a pure, deterministic function of the descriptor: both
  operations compute their local variables, among them the stripped base URL and (for
  \<open>Http.receive\<close>) the URL itself, from the fields of the access description alone, and
  every URL of a call is built from these variables. Two descriptions with the same
  fields give the same variables, and so the same URLs; and a \<open>baseUrl\<close> followed by
  any number \<open>n\<close> of slashes gives the same variables, the same URLs and the same run
  as the \<open>baseUrl\<close> without them.
\<close>

theorem url_construction_pure:
  "(map_of a = map_of a' \<longrightarrow>
            receive_vars_of a = receive_vars_of a' \<and> send_vars_of a = send_vars_of a')
       \<and> receive_vars_of (AList.update ''baseUrl'' (JStr (b @ replicate n (CHR ''/''))) a)
           = receive_vars_of (AList.update ''baseUrl'' (JStr b) a)
       \<and> send_vars_of (AList.update ''baseUrl'' (JStr (b @ replicate n (CHR ''/''))) a)
           = send_vars_of (AList.update ''baseUrl'' (JStr b) a)
       \<and> receive e (AList.update ''baseUrl'' (JStr (b @ replicate n (CHR ''/''))) a) internal w
           = receive e (AList.update ''baseUrl'' (JStr b) a) internal w
       \<and> send e (AList.update ''baseUrl'' (JStr (b @ replicate n (CHR ''/''))) a) internal w
           = send e (AList.update ''baseUrl'' (JStr b) a) internal w"
proof -
  have same: "map_of a = map_of a' \<longrightarrow>
      receive_vars_of a = receive_vars_of a' \<and> send_vars_of a = send_vars_of a'"
    using receive_vars_of_cong send_vars_of_cong by blast
  have rv: "receive_vars_of (AList.update ''baseUrl'' (JStr (b @ replicate n (CHR ''/''))) a)
            = receive_vars_of (AList.update ''baseUrl'' (JStr b) a)"
    by (rule receive_vars_of_slash)
  have sv: "send_vars_of (AList.update ''baseUrl'' (JStr (b @ replicate n (CHR ''/''))) a)
            = send_vars_of (AList.update ''baseUrl'' (JStr b) a)"
    by (rule send_vars_of_slash)
  have r: "receive e (AList.update ''baseUrl'' (JStr (b @ replicate n (CHR ''/''))) a) internal w
           = receive e (AList.update ''baseUrl'' (JStr b) a) internal w"
    by (simp add: receive_def rv)
  have s: "send e (AList.update ''baseUrl'' (JStr (b @ replicate n (CHR ''/''))) a) internal w
           = send e (AList.update ''baseUrl'' (JStr b) a) internal w"
    by (simp add: send_def sv)
  from same rv sv r s show ?thesis by blast
qed

theorem url_construction_pure_witness:
  "map_of demo_receive_access = map_of (demo_receive_access @ [(''project'', JStr ''Q'')])
   \<and> receive_vars_of demo_receive_access
       = receive_vars_of (demo_receive_access @ [(''project'', JStr ''Q'')])
   \<and> receive_vars_of
         (AList.update ''baseUrl'' (JStr (''h://x'' @ replicate 3 (CHR ''/''))) demo_receive_access)
       = receive_vars_of (AList.update ''baseUrl'' (JStr ''h://x'') demo_receive_access)"
proof -
  have same: "map_of demo_receive_access
              = map_of (demo_receive_access @ [(''project'', JStr ''Q'')])"
    by (rule ext) (simp add: demo_receive_access_def)
  from same url_construction_pure[where a = demo_receive_access
        and a' = "demo_receive_access @ [(''project'', JStr ''Q'')]"
        and n = 3 and b = "''h://x''"]
  show ?thesis by blast
qed

text \<open>
  Claim C7 as stated does not hold. A receive description with the fields of the
  container-less shape and \<open>disableSSLVerification\<close> is accepted, although it has a
  property beyond the fields of either shape.
\<close>

theorem validators_claimed_shapes_counterexample:
  "receive_validate (JObj demo_receive_plain) = Inr ()
   \<and> \<not> has_exactly container_qualified_fields (JObj demo_receive_plain)
   \<and> \<not> has_exactly container_less_fields (JObj demo_receive_plain)"
  by (simp add: receive_validate_def jsonschema_validate_def receive_shape_validates
        container_qualified_shape_def container_less_shape_def demo_receive_plain_def
        has_string_def has_auth_def may_have_boolean_def has_container_type_def only_keys_def
        demo_auth_def has_exactly_def container_qualified_fields_def container_less_fields_def)

text \<open>
  Claim C7, amended. \<open>send_validate\<close> and \<open>receive_validate\<close> are functions of the
  access description alone (they take no world and return none, so they do no network
  activity and have no side effect), and they accept a description if and only if it has
  the shape of the schema and raise the validation error otherwise. For send the shape
  is: an object with the strings \<open>baseUrl\<close>, \<open>project\<close>, \<open>subject\<close>, \<open>session\<close>,
  \<open>container\<close>, \<open>xsiType\<close>, \<open>file\<close>, a \<open>containerType\<close> among \<open>scans\<close>,
  \<open>reconstructions\<close>, \<open>assessors\<close>, an \<open>auth\<close> object of exactly the strings
  \<open>username\<close> and \<open>password\<close>, optionally a string \<open>resource\<close>, a boolean
  \<open>upsert\<close> and a boolean \<open>disableSSLVerification\<close>, and no other property. For
  receive it is one of two such shapes, the container-qualified one (with
  \<open>containerType\<close>, \<open>container\<close> and \<open>resource\<close>) or the container-less one (with
  \<open>resource\<close> and neither of the other two), each with an optional boolean
  \<open>disableSSLVerification\<close> and no other property; no description has both shapes.
\<close>

theorem validators_accept_the_shapes:
  "send_validate j = (if send_shape j then Inr () else Inl ValidationError)
   \<and> receive_validate j
       = (if container_qualified_shape j \<or> container_less_shape j then Inr ()
          else Inl ValidationError)
   \<and> \<not> (container_qualified_shape j \<and> container_less_shape j)"
  using shapes_exclusive[of j]
  by (auto simp: send_validate_def receive_validate_def jsonschema_validate_def
        send_shape_validates receive_shape_validates)

theorem validators_accept_the_shapes_witness:
  "send_shape (JObj demo_send_access)
   \<and> send_validate (JObj demo_send_access) = Inr ()
   \<and> \<not> send_shape (JObj demo_receive_access)
   \<and> send_validate (JObj demo_receive_access) = Inl ValidationError
   \<and> container_less_shape (JObj demo_receive_plain)
   \<and> receive_validate (JObj demo_receive_plain) = Inr ()"
proof -
  have s: "send_shape (JObj demo_send_access)"
    by (simp add: send_shape_def demo_send_access_def has_string_def has_auth_def
          may_have_boolean_def may_have_string_def has_container_type_def only_keys_def
          demo_auth_def)
  have n: "\<not> send_shape (JObj demo_receive_access)"
    by (simp add: send_shape_def demo_receive_access_def has_string_def)
  have c: "container_less_shape (JObj demo_receive_plain)"
    by (simp add: container_less_shape_def demo_receive_plain_def has_string_def has_auth_def
          may_have_boolean_def only_keys_def demo_auth_def)
  from validators_accept_the_shapes[of "JObj demo_send_access"]
       validators_accept_the_shapes[of "JObj demo_receive_access"]
       validators_accept_the_shapes[of "JObj demo_receive_plain"] s n c
  show ?thesis by simp
qed

text \<open>
  Claim C8. In \<open>Http.send\<close> and in \<open>Http.receive\<close> every response is checked: when a
  response of a run is not a success (the first one that is not), nothing happened after
  it (no further call, so no retry and no compensating call, and no operation on a local
  file) and the operation raised the \<open>HTTPError\<close> with the status of that response.
\<close>

theorem first_failure_aborts:
  "(send e access internal w = (res, w') \<longrightarrow>
      (case first_failure (new_events w w') of
         None \<Rightarrow> True
       | Some (st, rest) \<Rightarrow> rest = [] \<and> res = Inl (HTTPError st)))
 \<and> (receive e access internal w = (res, w') \<longrightarrow>
      (case first_failure (new_events w w') of
         None \<Rightarrow> True
       | Some (st, rest) \<Rightarrow> rest = [] \<and> res = Inl (HTTPError st)))"
proof -
  have "holds_after (send e access internal) w (\<lambda>res w'.
          case first_failure (new_events w w') of
            None \<Rightarrow> True
          | Some (st, rest) \<Rightarrow> rest = [] \<and> res = Inl (HTTPError st))"
    unfolding send_def by (simp add: after_rules Let_def)
  moreover have "holds_after (receive e access internal) w (\<lambda>res w'.
          case first_failure (new_events w w') of
            None \<Rightarrow> True
          | Some (st, rest) \<Rightarrow> rest = [] \<and> res = Inl (HTTPError st))"
    unfolding receive_def
    by (simp add: after_rules Let_def new_events_def trace_write_chunks)
  ultimately show ?thesis by (auto dest: holds_afterD)
qed

theorem first_failure_aborts_witness:
  "first_failure (new_events demo_world
      (snd (send demo_env_failing demo_send_access demo_internal demo_world)))
     = Some (500, [])
   \<and> fst (send demo_env_failing demo_send_access demo_internal demo_world)
     = Inl (HTTPError 500)"
proof -
  have ff: "first_failure (new_events demo_world
      (snd (send demo_env_failing demo_send_access demo_internal demo_world)))
     = Some (500, [])"
    unfolding demo_send_failing_run by (simp add: new_events_def demo_world_def)
  from first_failure_aborts[of demo_env_failing demo_send_access demo_internal demo_world
         "fst (send demo_env_failing demo_send_access demo_internal demo_world)"
         "snd (send demo_env_failing demo_send_access demo_internal demo_world)"] ff
  show ?thesis by simp
qed

text \<open>
  Claim C9. When the first \<open>GET\<close> of \<open>Http.receive\<close> is answered with a status that
  is not a success, the operation raises the \<open>HTTPError\<close> before it opens the local
  path: the \<open>GET\<close> is the only event of the run and the local files are what they were
  (nothing is created, truncated or written). Conversely, a run of \<open>Http.receive\<close> that
  changed a local file got a successful response to its \<open>GET\<close>.
\<close>

theorem receive_failed_get:
  "(receive_vars_of access = Inr v \<and> server e (trace w) (receive_get v) = Response r
      \<and> \<not> ok r \<longrightarrow>
        fst (receive e access internal w) = Inl (HTTPError (status_code r))
      \<and> new_events w (snd (receive e access internal w)) = [Http (receive_get v) (Response r)]
      \<and> files (snd (receive e access internal w)) = files w)
 \<and> (files (snd (receive e access internal w)) \<noteq> files w \<longrightarrow>
      (\<exists>v r. receive_vars_of access = Inr v
             \<and> server e (trace w) (receive_get v) = Response r \<and> ok r))"
proof (intro conjI impI)
  assume a: "receive_vars_of access = Inr v \<and> server e (trace w) (receive_get v) = Response r
             \<and> \<not> ok r"
  then have run: "receive e access internal w
      = (Inl (HTTPError (status_code r)),
         w\<lparr>trace := trace w @ [Http (receive_get v) (Response r)]\<rparr>)"
    by (simp add: receive_def io_defs Let_def)
  show "fst (receive e access internal w) = Inl (HTTPError (status_code r))"
    by (simp add: run)
  show "new_events w (snd (receive e access internal w)) = [Http (receive_get v) (Response r)]"
    by (simp add: run)
  show "files (snd (receive e access internal w)) = files w"
    by (simp add: run)
next
  assume changed: "files (snd (receive e access internal w)) \<noteq> files w"
  show "\<exists>v r. receive_vars_of access = Inr v
              \<and> server e (trace w) (receive_get v) = Response r \<and> ok r"
  proof (cases "receive_vars_of access")
    case (Inl err)
    with changed show ?thesis by (simp add: receive_def io_defs)
  next
    case (Inr v)
    show ?thesis
    proof (cases "server e (trace w) (receive_get v)")
      case NoResponse
      with Inr changed show ?thesis by (simp add: receive_def io_defs Let_def)
    next
      case (Response r)
      with Inr changed have "ok r"
        by (auto simp: receive_def io_defs Let_def split: if_splits)
      with Inr Response show ?thesis by blast
    qed
  qed
qed

theorem receive_failed_get_witness:
  "receive_vars_of demo_receive_access = Inr demo_receive_vars
   \<and> server demo_env_failing (trace demo_world) (receive_get demo_receive_vars)
     = Response demo_failure
   \<and> \<not> ok demo_failure
   \<and> fst (receive demo_env_failing demo_receive_access demo_internal demo_world)
     = Inl (HTTPError 500)
   \<and> files (snd (receive demo_env_failing demo_receive_access demo_internal demo_world))
     = files demo_world
   \<and> files (snd (receive demo_env_file demo_receive_access demo_internal demo_world))
     \<noteq> files demo_world"
proof -
  have reply: "server demo_env_failing (trace demo_world) (receive_get demo_receive_vars)
                 = Response demo_failure"
    by (simp add: demo_env_failing_def)
  have "files (snd (receive demo_env_file demo_receive_access demo_internal demo_world)) ''/f''
          \<noteq> files demo_world ''/f''"
    unfolding demo_receive_run by (simp add: demo_world_def)
  then have changed: "files (snd (receive demo_env_file demo_receive_access demo_internal
                                    demo_world)) \<noteq> files demo_world"
    by auto
  from receive_failed_get[of demo_receive_access demo_receive_vars demo_env_failing
         demo_world demo_failure demo_internal] demo_receive_vars_of reply changed
  show ?thesis by simp
qed

text \<open>
  Claim C10. When the server lists no container whose \<open>ID\<close> is \<open>container\<close>, the run
  of \<open>Http.send\<close> (its result, the calls it issues with their replies, the local file it
  opens) is the same whatever \<open>upsert\<close> is: set to any value \<open>u\<close>, or removed from the
  access description, it gives the run of the description as it was.
\<close>

theorem send_ignores_upsert:
  assumes vars: "send_vars_of access = Inr v"
      and listing: "answers e (trace w) (list_containers v) r ''ID'' (container v) False"
  shows "send e (AList.update ''upsert'' u access) internal w = send e access internal w
       \<and> send e (AList.delete ''upsert'' access) internal w = send e access internal w"
proof -
  from answersD[OF listing] obtain existing where
    a: "server e (trace w) (list_containers v) = Response r" "ok r"
       "result_of r = Inr existing" "listed ''ID'' (container v) existing = Inr False"
    by blast
  have same: "send e a1 internal w = send e a2 internal w"
    if "send_vars_of a1 = Inr (v\<lparr>upsert := x1\<rparr>)" "send_vars_of a2 = Inr (v\<lparr>upsert := x2\<rparr>)"
    for a1 a2 x1 x2
    using that a by (simp add: send_def io_defs Let_def)
  have v: "send_vars_of access = Inr (v\<lparr>upsert := upsert v\<rparr>)" using vars by simp
  show ?thesis
    using same[OF send_vars_of_set_upsert(1)[OF vars] v]
          same[OF send_vars_of_set_upsert(2)[OF vars] v] by simp
qed

theorem send_ignores_upsert_witness:
  "send_vars_of demo_send_access = Inr demo_send_vars
   \<and> send demo_env_empty (AList.update ''upsert'' (JBool False) demo_send_access)
        demo_internal demo_world
     = send demo_env_empty demo_send_access demo_internal demo_world
   \<and> send demo_env_empty (AList.delete ''upsert'' demo_send_access) demo_internal demo_world
     = send demo_env_empty demo_send_access demo_internal demo_world
   \<and> fst (send demo_env_empty (AList.delete ''upsert'' demo_send_access)
             demo_internal demo_world) = Inr ()"
proof -
  have listing: "answers demo_env_empty (trace demo_world) (list_containers demo_send_vars)
                   demo_empty ''ID'' (container demo_send_vars) False"
    by (simp add: answers_def demo_env_empty_def ebind_def)
  from send_ignores_upsert[OF demo_send_vars_of listing, of "JBool False" demo_internal]
  show ?thesis
    by (simp add: demo_send_vars_of demo_send_empty_run)
qed

end
